theory Spec2Isabelle
  imports Main "HOL-Library.Word" "HOL-Library.Char_ord" "HOL-Library.List_Lexorder"
begin

section \<open>Errors\<close>

text \<open>
  The package-level error values of \<^verbatim>\<open>agent.go\<close>, the channel-exists error of the
  \<^verbatim>\<open>fsm\<close> package, errors built on the spot with \<^verbatim>\<open>errors.New\<close>, errors
  returned by foreign packages, and annotated errors (\<^verbatim>\<open>errors.Wrap\<close>,
  \<^verbatim>\<open>errors.Wrapf\<close>). A Go panic is a value too.
\<close>

datatype error =
    errAcctsSame
  | errAlreadyConfigured
  | ErrExists
  | errInsufficientBalance
  | errInvalidEdit
  | errInvalidHorizonURL
  | errInvalidPassword
  | errInvalidUsername
  | errNotConfigured
  | errNotFunded
  | errPasswordsDontMatch
  | errAccountNotFound
  | errEmptyAddress
  | errEmptyAmount
  | errNoChannelSpecified
  | fsm_ErrChannelExists
  | errors_New string
  | External string
  | Wrap error string
  | Panic string

text \<open>\<^verbatim>\<open>errors.Root\<close>: the error at the bottom of a chain of annotations.\<close>

fun Root :: "error \<Rightarrow> error" where
  "Root (Wrap e msg) = Root e"
| "Root e = e"

section \<open>Data model\<close>

type_synonym Amount = "64 word" \<comment> \<open>\<^verbatim>\<open>xlm.Amount\<close>, an \<^verbatim>\<open>int64\<close> read with \<open>sint\<close>\<close>
type_synonym SequenceNumber = "64 word" \<comment> \<open>\<^verbatim>\<open>xdr.SequenceNumber\<close>, an \<^verbatim>\<open>int64\<close>\<close>
type_synonym Duration = "64 word" \<comment> \<open>\<^verbatim>\<open>time.Duration\<close>, an \<^verbatim>\<open>int64\<close> of nanoseconds\<close>
type_synonym Time = int
type_synonym bytes = "8 word list"

text \<open>The \<^verbatim>\<open>Config\<close> struct that \<^verbatim>\<open>ConfigInit\<close> and \<^verbatim>\<open>ConfigEdit\<close> receive.\<close>

record Config =
  Username :: string
  Password :: string
  HorizonURL :: string
  OldPassword :: string
  MaxRoundDurMin :: "64 word"
  FinalityDelayMin :: "64 word"
  ChannelFeerate :: Amount
  HostFeerate :: Amount
  KeepAlive :: "bool option"

text \<open>The stored configuration, read and written through \<^verbatim>\<open>root.Agent().Config()\<close>.\<close>

record db_Config =
  db_Username :: string
  db_PwType :: string
  db_PwHash :: bytes
  db_HorizonURL :: string
  db_MaxRoundDurMin :: "64 word"
  db_FinalityDelayMin :: "64 word"
  db_ChannelFeerate :: "64 word"
  db_HostFeerate :: "64 word"
  db_KeepAlive :: bool

record WalletAcct =
  Balance :: Amount
  Seqnum :: SequenceNumber
  Cursor :: string
  Address :: string

datatype Role = Guest | Host

datatype State = Start | SettingUp | ChannelProposed | AwaitingFunding | Open
  | PaymentProposed | PaymentAccepted | AwaitingPaymentMerge | AwaitingClose
  | AwaitingCleanup | AwaitingRatchet | AwaitingSettlementMintime
  | AwaitingSettlement | Closed

record Channel =
  ch_ID :: string
  ch_Role :: Role
  ch_State :: State
  ch_HostAmount :: Amount
  ch_CounterpartyAddress :: string
  ch_RemoteURL :: string
  ch_Passphrase :: string
  ch_MaxRoundDuration :: Duration
  ch_FinalityDelay :: Duration
  ch_ChannelFeerate :: Amount
  ch_HostFeerate :: Amount
  ch_FundingTime :: Time
  ch_PaymentTime :: Time
  ch_KeyIndex :: "32 word"
  ch_HostAcct :: string
  ch_GuestAcct :: string
  ch_EscrowAcct :: string
  ch_HostRatchetAcct :: string
  ch_GuestRatchetAcct :: string
  ch_RoundNumber :: "64 word"

text \<open>User commands (\<^verbatim>\<open>fsm.Command\<close>), as far as the agent fills them in.\<close>

datatype UserCommand = CreateChannel | Pay

record Command =
  cmd_UserCommand :: UserCommand
  cmd_Amount :: Amount
  cmd_Recipient :: string
  cmd_Time :: "Time option"

text \<open>
  A ledger transaction as the agent reads it (\<^verbatim>\<open>fsm.Tx\<close>): the source account and the
  operations of the envelope, the result code, and, per operation, the source-account
  balance of an account-merge result. The chain of pointers
  \<^verbatim>\<open>(*Result.Result.Results)[index].Tr.AccountMergeResult.SourceAccountBalance\<close> is one
  option per operation (\<open>None\<close> where a pointer of the chain is nil) under one
  option for the slice pointer itself.
\<close>

datatype TransactionResultCode = TransactionResultCodeTxSuccess | TransactionResultCodeOther int

datatype AssetType = AssetTypeAssetTypeNative | AssetTypeOther nat

datatype OperationBody =
    CreateAccountOp string "64 word" \<comment> \<open>Destination, StartingBalance\<close>
  | PaymentOp string AssetType "64 word" \<comment> \<open>Destination, Asset.Type, Amount\<close>
  | AccountMergeOp string \<comment> \<open>Destination\<close>
  | OtherOp nat \<comment> \<open>any other operation type\<close>

record Tx =
  tx_SourceAccount :: string
  tx_Operations :: "OperationBody list"
  tx_ResultCode :: TransactionResultCode
  tx_Results :: "64 word option list option"

text \<open>A transaction as the ledger client delivers it (\<^verbatim>\<open>worizon.Tx\<close>).\<close>

record worizon_Tx =
  PT :: string \<comment> \<open>paging token\<close>
  Ledger :: "32 word" \<comment> \<open>an \<^verbatim>\<open>int32\<close>\<close>
  htx_Xdr :: string \<comment> \<open>envelope and result, undecoded\<close>

text \<open>Peer messages (\<^verbatim>\<open>fsm.Message\<close>), with the fields the agent itself reads.\<close>

record ChannelProposeMsg =
  p_HostAcct :: string
  p_GuestAcct :: string
  p_HostRatchetAcct :: string
  p_GuestRatchetAcct :: string
  p_CounterpartyAddress :: string

record Message =
  ChannelID :: string
  ChannelProposeMsg :: "ChannelProposeMsg option"
  msg_Payload :: string \<comment> \<open>the other message kinds, opaque to the agent\<close>

text \<open>Update records, the observable log.\<close>

datatype UpdateType = InitType | ConfigType | AccountType | ChannelType
  | TxSuccessType | WarningType

record upd_Config =
  uc_Username :: string
  uc_Password :: string
  uc_HorizonURL :: string

record upd_Account =
  ua_ID :: string
  ua_Balance :: "64 word" \<comment> \<open>a \<^verbatim>\<open>uint64\<close>\<close>

record Update =
  upd_Type :: UpdateType
  upd_Config :: "upd_Config option"
  upd_Account :: "upd_Account option"
  upd_InputTx :: "Tx option"
  upd_OpIndex :: nat
  upd_InputCommand :: "Command option"
  upd_InputMessage :: "Message option"
  upd_InputLedgerTime :: "Time option"
  upd_PendingSequence :: string
  upd_Warning :: string

text \<open>The zero \<^verbatim>\<open>Update\<close> of a given type; a composite literal sets further fields.\<close>

definition Update0 :: "UpdateType \<Rightarrow> Update" where
  "Update0 t = \<lparr>upd_Type = t, upd_Config = None, upd_Account = None, upd_InputTx = None,
     upd_OpIndex = 0, upd_InputCommand = None, upd_InputMessage = None,
     upd_InputLedgerTime = None, upd_PendingSequence = [], upd_Warning = []\<rparr>"

text \<open>Tasks of the task basket: a transaction envelope to submit, a message to send.\<close>

datatype Task = TbTx string string \<comment> \<open>ChanID, envelope (XDR)\<close>
  | TbMsg string Message \<comment> \<open>RemoteURL, Msg\<close>

text \<open>
  The durable store under \<^verbatim>\<open>root.Agent()\<close>. The channels bucket is an association
  list in the order in which \<^verbatim>\<open>ForEach\<close> visits it.
\<close>

record db_Root =
  agent_Config :: db_Config
  EncryptedSeed :: bytes
  NextKeypathIndex :: "32 word" \<comment> \<open>a \<^verbatim>\<open>uint32\<close>\<close>
  PrimaryAcct :: string \<comment> \<open>the address; empty while unset\<close>
  Wallet :: WalletAcct
  Channels :: "(string \<times> Channel) list"
  Updates :: "Update list"
  Tasks :: "Task list"

text \<open>Goroutines launched with \<^verbatim>\<open>allez\<close>, recorded in launch order.\<close>

datatype goroutine = watchWalletAcct_go string string \<comment> \<open>account, cursor\<close>
  | getTestnetFaucetFunds_go string

text \<open>
  The agent: the fields that are data (the seed, the ledger client's URL), the
  goroutines it has launched, and its store.
\<close>

record Agent =
  seed :: "bytes option"
  wclient_URL :: string
  launched :: "goroutine list"
  db :: db_Root

record KeyPair =
  kp_Address :: string
  kp_Seed :: string

text \<open>
  What the agent calls outside \<^verbatim>\<open>agent.go\<close>: the ledger client, federation lookup,
  key derivation, password hashing, the seed box, the transaction builder, the
  channel state machine and the task basket. Each is a parameter.
\<close>

record Env =
  ValidateTestnetURL :: "string \<Rightarrow> error option"
  validateUsername :: "string \<Rightarrow> bool"
  randRead :: bytes \<comment> \<open>the 32 bytes read into the seed\<close>
  DeriveAccountPrimary :: "bytes option \<Rightarrow> KeyPair"
  DeriveAccount :: "bytes option \<Rightarrow> 32 word \<Rightarrow> KeyPair"
  GenerateFromPassword :: "string \<Rightarrow> error + bytes"
  CompareHashAndPassword :: "bytes \<Rightarrow> string \<Rightarrow> error option"
  sealBox :: "bytes option \<Rightarrow> string \<Rightarrow> bytes"
  SetAddress :: "string \<Rightarrow> error option"
  FindAccount :: "string \<Rightarrow> string \<times> string \<times> error option"
  SequenceForAccount :: "string \<Rightarrow> error + SequenceNumber"
  Now :: Time
  SetupAndFundingReserveAmount :: "Channel \<Rightarrow> Amount"
  Amount_String :: "Amount \<Rightarrow> string"
  HorizonString :: "Amount \<Rightarrow> string"
  doUpdateChannel :: "db_Root \<Rightarrow> string \<Rightarrow> Command \<Rightarrow> error option \<times> db_Root"
  updateChannel :: "db_Root \<Rightarrow> Message
     \<Rightarrow> (SequenceNumber \<times> SequenceNumber \<times> SequenceNumber \<times> string) option
     \<Rightarrow> error option \<times> db_Root"
  startChannel :: "db_Root \<Rightarrow> string \<Rightarrow> error option"
  NewTx :: "worizon_Tx \<Rightarrow> error + Tx"
  b_Transaction :: "string \<Rightarrow> string \<Rightarrow> 64 word \<Rightarrow> string \<Rightarrow> string \<Rightarrow> error + string"
  Sign :: "string \<Rightarrow> string \<Rightarrow> error + string"
  AddTx_error :: "Task \<Rightarrow> error option" \<comment> \<open>the error of \<^verbatim>\<open>tb.AddTx\<close>, if any\<close>
  walletBucket :: string
  Error_text :: "error \<Rightarrow> string" \<comment> \<open>\<^verbatim>\<open>err.Error()\<close>\<close>
  FormatInt :: "64 word \<Rightarrow> string" \<comment> \<open>\<^verbatim>\<open>strconv.FormatInt(_, 10)\<close>\<close>
  xlm_Millilumen :: Amount
  xlm_Stroop :: Amount

section \<open>The durable store\<close>

text \<open>
  Modelled from the spec: \<^verbatim>\<open>db.Update\<close> and \<^verbatim>\<open>db.View\<close> of the \<^verbatim>\<open>db\<close> package
  (not in \<^verbatim>\<open>agent.go\<close>). An update runs a function of the root handle, and
  ``either all writes commit or none do'': when the function returns an error the
  store is as before, while what the function did to the agent's memory stays. The
  function's result carries the variables it assigns in the enclosing scope.
\<close>

definition db_Update :: "(Agent \<Rightarrow> error option \<times> 'v \<times> Agent) \<Rightarrow> Agent \<Rightarrow> error option \<times> 'v \<times> Agent" where
  "db_Update f g =
     (case f g of
        (None, v, g') \<Rightarrow> (None, v, g')
      | (Some e, v, g') \<Rightarrow> (Some e, v, g'\<lparr>db := db g\<rparr>))"

text \<open>
  Modelled from the spec: \<^verbatim>\<open>putUpdate\<close> (not in \<^verbatim>\<open>agent.go\<close>) appends an update
  record to the observable log.
\<close>

definition putUpdate :: "db_Root \<Rightarrow> Update \<Rightarrow> db_Root" where
  "putUpdate root u = root\<lparr>Updates := Updates root @ [u]\<rparr>"

definition isReadyConfigured :: "db_Root \<Rightarrow> bool" where
  "isReadyConfigured root \<longleftrightarrow> db_HorizonURL (agent_Config root) \<noteq> []"

definition isReadyFunded :: "db_Root \<Rightarrow> bool" where
  "isReadyFunded root \<longleftrightarrow> 0 <s Seqnum (Wallet root)"

section \<open>The federation endpoint\<close>

text \<open>
  A request, as far as the handlers read it: the query parameters \<^verbatim>\<open>type\<close> and
  \<^verbatim>\<open>q\<close> (empty when absent, as \<^verbatim>\<open>Query().Get\<close> returns them), the Host header and
  the decoded body (\<open>None\<close> when the JSON decoder fails). A response is a status
  with a text (\<^verbatim>\<open>http.Error\<close>) or a JSON object, whose keys the encoder sorts.
\<close>

record Request =
  query_type :: string
  query_q :: string
  req_Host :: string
  req_Body :: "Message option"

datatype Body = Text string | JsonObject "(string \<times> string) list" | Empty

record Response =
  status :: nat
  body :: Body

definition http_Error :: "string \<Rightarrow> nat \<Rightarrow> Response" where
  "http_Error msg code = \<lparr>status = code, body = Text msg\<rparr>"

definition handleFed :: "Agent \<Rightarrow> Request \<Rightarrow> Response" where
  "handleFed g req =
     (if query_type req \<noteq> ''name'' then http_Error ''not implemented'' 501
      else
        let name = db_Username (agent_Config (db g));
            acct = PrimaryAcct (db g);
            q = query_q req
        in if q \<noteq> name @ ''*'' @ req_Host req then http_Error ''not found'' 404
           else \<lparr>status = 200,
                 body = JsonObject [(''account_id'', acct),
                                    (''stellar_address'', q @ ''*'' @ req_Host req)]\<rparr>)"

section \<open>Channel uniqueness\<close>

text \<open>
  \<^verbatim>\<open>checkChannelUnique\<close> walks the channels bucket and stops at the first channel
  whose host and guest accounts are \<open>a\<close> and \<open>b\<close> in either order.
\<close>

fun checkChannelUnique_ForEach :: "string \<Rightarrow> string \<Rightarrow> (string \<times> Channel) list \<Rightarrow> error option" where
  "checkChannelUnique_ForEach a b [] = None"
| "checkChannelUnique_ForEach a b ((currChanID, c) # chans) =
     (let p = ch_HostAcct c; q = ch_GuestAcct c
      in if (a = p \<and> b = q) \<or> (a = q \<and> b = p)
         then Some (Wrap ErrExists (''between host '' @ p @ '' and guest '' @ q))
         else checkChannelUnique_ForEach a b chans)"

definition checkChannelUnique :: "Agent \<Rightarrow> string \<Rightarrow> string \<Rightarrow> error option" where
  "checkChannelUnique g a b = checkChannelUnique_ForEach a b (Channels (db g))"

section \<open>The peer message endpoint\<close>

definition getSequenceNumbers ::
  "Env \<Rightarrow> string \<Rightarrow> string \<Rightarrow> string
     \<Rightarrow> error + (SequenceNumber \<times> SequenceNumber \<times> SequenceNumber)" where
  "getSequenceNumbers env chanID guestRatchetAcct hostRatchetAcct =
     (case SetAddress env chanID of
        Some err \<Rightarrow> Inl err
      | None \<Rightarrow>
         (case SequenceForAccount env chanID of
            Inl err \<Rightarrow> Inl err
          | Inr base \<Rightarrow>
             (case SequenceForAccount env guestRatchetAcct of
                Inl err \<Rightarrow> Inl err
              | Inr guest \<Rightarrow>
                 (case SequenceForAccount env hostRatchetAcct of
                    Inl err \<Rightarrow> Inl err
                  | Inr host \<Rightarrow> Inr (base, guest, host)))))"

text \<open>
  The end of \<^verbatim>\<open>handleMsg\<close>: the message goes to the channel through
  \<^verbatim>\<open>updateChannel\<close>, with the values fetched for a proposal, and the root of the
  error decides the status. A handler that writes nothing answers 200.
\<close>

definition handleMsg_dispatch ::
  "Env \<Rightarrow> Agent \<Rightarrow> Message
     \<Rightarrow> (SequenceNumber \<times> SequenceNumber \<times> SequenceNumber \<times> string) option
     \<Rightarrow> Response \<times> Agent" where
  "handleMsg_dispatch env g m fetched =
     (case updateChannel env (db g) m fetched of
        (err, root') \<Rightarrow>
          (case err of
             None \<Rightarrow> (\<lparr>status = 200, body = Empty\<rparr>, g\<lparr>db := root'\<rparr>)
           | Some e \<Rightarrow>
               if Root e = ErrExists \<or> Root e = fsm_ErrChannelExists
               then (http_Error ''non-retriable error'' 205, g\<lparr>db := root'\<rparr>)
               else (http_Error ''internal error'' 500, g\<lparr>db := root'\<rparr>)))"

definition handleMsg :: "Env \<Rightarrow> Agent \<Rightarrow> Request \<Rightarrow> Response \<times> Agent" where
  "handleMsg env g req =
     (case req_Body req of
        None \<Rightarrow> (http_Error ''bad request'' 400, g)
      | Some m \<Rightarrow>
          if length (ChannelID m) = 0 then (http_Error ''bad request'' 400, g)
          else
            (case ChannelProposeMsg m of
               None \<Rightarrow> handleMsg_dispatch env g m None
             | Some propose \<Rightarrow>
                (case checkChannelUnique g (p_HostAcct propose) (p_GuestAcct propose) of
                   Some err \<Rightarrow> (http_Error ''channel exists between parties'' 205, g)
                 | None \<Rightarrow>
                    (case SetAddress env (ChannelID m) of
                       Some err \<Rightarrow> (http_Error ''invalid channel ID'' 400, g)
                     | None \<Rightarrow>
                        (case getSequenceNumbers env (ChannelID m)
                                (p_GuestRatchetAcct propose) (p_HostRatchetAcct propose) of
                           Inl err \<Rightarrow> (http_Error ''error fetching accounts'' 400, g)
                         | Inr (baseSeqNum, guestSeqNum, hostSeqNum) \<Rightarrow>
                            (case FindAccount env (p_CounterpartyAddress propose) of
                               (hostAccount, starlightURL, err) \<Rightarrow>
                                 if starlightURL = []
                                 then (http_Error ''counterparty starlight URL not found'' 400, g)
                                 else
                                   (case err of
                                      Some e \<Rightarrow>
                                        (http_Error (''counterparty starlight URL not found, got err ''
                                           @ Error_text env e) 400, g)
                                    | None \<Rightarrow>
                                        if hostAccount \<noteq> p_HostAcct propose
                                        then (http_Error (''host acct '' @ p_HostAcct propose
                                                @ '' doesn't match acct '' @ hostAccount
                                                @ '' retrieved from federation address ''
                                                @ p_CounterpartyAddress propose) 400, g)
                                        else handleMsg_dispatch env g m
                                               (Some (guestSeqNum, hostSeqNum, baseSeqNum,
                                                      starlightURL)))))))))"

section \<open>Configuration\<close>

definition defaultMaxRoundDurMin :: "64 word" where
  "defaultMaxRoundDurMin = 24 * 60"

definition defaultFinalityDelayMin :: "64 word" where
  "defaultFinalityDelayMin = 4 * 60"

definition defaultChannelFeerate :: "Env \<Rightarrow> Amount" where
  "defaultChannelFeerate env = 10 * xlm_Millilumen env"

definition defaultHostFeerate :: "Env \<Rightarrow> Amount" where
  "defaultHostFeerate env = 100 * xlm_Stroop env"

fun startChannels :: "Env \<Rightarrow> db_Root \<Rightarrow> string list \<Rightarrow> error option" where
  "startChannels env root [] = None"
| "startChannels env root (chanID # chanIDs) =
     (case startChannel env root chanID of
        Some err \<Rightarrow> Some err
      | None \<Rightarrow> startChannels env root chanIDs)"

text \<open>
  \<^verbatim>\<open>start\<close>, called within an update: nothing for an agent that is not configured;
  otherwise it points the ledger client at the stored URL, starts every channel and
  launches the wallet watcher from the stored cursor.
\<close>

definition start :: "Env \<Rightarrow> Agent \<Rightarrow> error option \<times> Agent" where
  "start env g =
     (let root = db g
      in if \<not> isReadyConfigured root then (None, g)
         else
           let g1 = g\<lparr>wclient_URL := db_HorizonURL (agent_Config root)\<rparr>
           in case startChannels env root (map fst (Channels root)) of
                Some err \<Rightarrow> (Some err, g1)
              | None \<Rightarrow>
                  (None, g1\<lparr>launched := launched g1 @
                     [watchWalletAcct_go (PrimaryAcct root) (Cursor (Wallet root))]\<rparr>))"

text \<open>
  The function \<^verbatim>\<open>ConfigInit\<close> runs inside \<^verbatim>\<open>db.Update\<close>. The seed is generated
  and kept in the agent before the password and the user name are looked at. The
  defaults that the source writes back into \<^verbatim>\<open>c\<close> are the local \<open>c1\<close>.
\<close>

definition ConfigInit_update :: "Env \<Rightarrow> Config \<Rightarrow> Agent \<Rightarrow> error option \<times> unit \<times> Agent" where
  "ConfigInit_update env c g =
     (if isReadyConfigured (db g) then (Some errAlreadyConfigured, (), g)
      else
        let g1 = g\<lparr>seed := Some (randRead env)\<rparr>;
            k = DeriveAccountPrimary env (seed g1);
            primaryAcct = kp_Address k
        in if 72 < length (Password c)
           then (Some (Wrap errInvalidPassword ''too long (max 72 chars)''), (), g1)
           else if Password c = []
           then (Some (Wrap errInvalidPassword ''empty password''), (), g1)
           else if \<not> validateUsername env (Username c) then (Some errInvalidUsername, (), g1)
           else
             (case GenerateFromPassword env (Password c) of
                Inl err \<Rightarrow> (Some err, (), g1)
              | Inr digest \<Rightarrow>
                  let c1 = c\<lparr>MaxRoundDurMin :=
                               (if MaxRoundDurMin c = 0 then defaultMaxRoundDurMin
                                else MaxRoundDurMin c),
                             FinalityDelayMin :=
                               (if FinalityDelayMin c = 0 then defaultFinalityDelayMin
                                else FinalityDelayMin c),
                             ChannelFeerate :=
                               (if ChannelFeerate c = 0 then defaultChannelFeerate env
                                else ChannelFeerate c),
                             HostFeerate :=
                               (if HostFeerate c = 0 then defaultHostFeerate env
                                else HostFeerate c),
                             KeepAlive :=
                               (if KeepAlive c = None then Some True else KeepAlive c)\<rparr>;
                      root1 = (db g1)\<lparr>
                        agent_Config :=
                          \<lparr>db_Username = Username c1, db_PwType = ''bcrypt'',
                           db_PwHash = digest, db_HorizonURL = HorizonURL c1,
                           db_MaxRoundDurMin = MaxRoundDurMin c1,
                           db_FinalityDelayMin = FinalityDelayMin c1,
                           db_ChannelFeerate = ChannelFeerate c1,
                           db_HostFeerate = HostFeerate c1,
                           db_KeepAlive = (KeepAlive c1 = Some True)\<rparr>,
                        EncryptedSeed := sealBox env (seed g1) (Password c1),
                        NextKeypathIndex := 1,
                        PrimaryAcct := primaryAcct,
                        Wallet := \<lparr>Balance = 0, Seqnum = 0, Cursor = [], Address = []\<rparr>\<rparr>;
                      root2 = putUpdate root1
                        ((Update0 InitType)\<lparr>
                           upd_Config := Some \<lparr>uc_Username = Username c1,
                             uc_Password = ''[redacted]'', uc_HorizonURL = HorizonURL c1\<rparr>,
                           upd_Account := Some \<lparr>ua_ID = primaryAcct, ua_Balance = 0\<rparr>\<rparr>);
                      g2 = g1\<lparr>db := root2, wclient_URL := HorizonURL c1,
                             launched := launched g1 @ [getTestnetFaucetFunds_go primaryAcct]\<rparr>
                  in case start env g2 of (err, g3) \<Rightarrow> (err, (), g3)))"

definition ConfigInit :: "Env \<Rightarrow> Config \<Rightarrow> Agent \<Rightarrow> error option \<times> Agent" where
  "ConfigInit env c g =
     (case ValidateTestnetURL env (HorizonURL c) of
        Some err \<Rightarrow> (Some err, g)
      | None \<Rightarrow>
          (case db_Update (ConfigInit_update env c) g of (err, u, g') \<Rightarrow> (err, g')))"

text \<open>
  The function \<^verbatim>\<open>ConfigEdit\<close> runs inside \<^verbatim>\<open>db.Update\<close>. The password part ends
  in an early return (\<open>Inl\<close>, before anything is written) or goes on with the store
  as written so far (\<open>Inr\<close>).
\<close>

definition ConfigEdit_password :: "Env \<Rightarrow> Config \<Rightarrow> Agent \<Rightarrow> error option + db_Root" where
  "ConfigEdit_password env c g =
     (let root = db g
      in if Password c \<noteq> [] then
           (if db_PwType (agent_Config root) \<noteq> ''bcrypt'' then Inl None
            else
              (case CompareHashAndPassword env (db_PwHash (agent_Config root)) (OldPassword c) of
                 Some err \<Rightarrow> Inl (Some errPasswordsDontMatch)
               | None \<Rightarrow>
                  (case GenerateFromPassword env (Password c) of
                     Inl err \<Rightarrow> Inl (Some err)
                   | Inr digest \<Rightarrow>
                       Inr (putUpdate
                         (root\<lparr>agent_Config :=
                                  (agent_Config root)\<lparr>db_PwType := ''bcrypt'', db_PwHash := digest\<rparr>,
                               EncryptedSeed := sealBox env (seed g) (Password c)\<rparr>)
                         ((Update0 ConfigType)\<lparr>upd_Config :=
                            Some \<lparr>uc_Username = [], uc_Password = ''[redacted]'',
                                  uc_HorizonURL = []\<rparr>\<rparr>)))))
         else Inr root)"

definition ConfigEdit_update :: "Env \<Rightarrow> Config \<Rightarrow> Agent \<Rightarrow> error option \<times> unit \<times> Agent" where
  "ConfigEdit_update env c g =
     (if \<not> isReadyConfigured (db g) then (Some errNotConfigured, (), g)
      else
        (case ConfigEdit_password env c g of
           Inl r \<Rightarrow> (r, (), g)
         | Inr root1 \<Rightarrow>
             if HorizonURL c \<noteq> [] then
               (None, (),
                g\<lparr>db := putUpdate
                       (root1\<lparr>agent_Config :=
                                 (agent_Config root1)\<lparr>db_HorizonURL := HorizonURL c\<rparr>\<rparr>)
                       ((Update0 ConfigType)\<lparr>upd_Config :=
                          Some \<lparr>uc_Username = [], uc_Password = [],
                                uc_HorizonURL = HorizonURL c\<rparr>\<rparr>),
                  wclient_URL := HorizonURL c\<rparr>)
             else (None, (), g\<lparr>db := root1\<rparr>)))"

definition ConfigEdit :: "Env \<Rightarrow> Config \<Rightarrow> Agent \<Rightarrow> error option \<times> Agent" where
  "ConfigEdit env c g =
     (if Username c \<noteq> [] then (Some errInvalidEdit, g)
      else if 72 < length (Password c)
      then (Some (Wrap errInvalidPassword ''too long (max 72 chars)''), g)
      else if Password c = [] \<and> HorizonURL c = [] then (None, g)
      else
        (case (if HorizonURL c \<noteq> [] then ValidateTestnetURL env (HorizonURL c) else None) of
           Some err \<Rightarrow> (Some err, g)
         | None \<Rightarrow>
             (case db_Update (ConfigEdit_update env c) g of (err, u, g') \<Rightarrow> (err, g'))))"

section \<open>Creating a channel\<close>

text \<open>
  \<^verbatim>\<open>nextChannelKeyIndex\<close> returns the stored key path index and stores it bumped;
  the index is a \<^verbatim>\<open>uint32\<close>, and the sum wraps.
\<close>

definition nextChannelKeyIndex :: "db_Root \<Rightarrow> 32 word \<Rightarrow> 32 word \<times> db_Root" where
  "nextChannelKeyIndex agent bump =
     (let i = NextKeypathIndex agent
      in (i, agent\<lparr>NextKeypathIndex := i + bump\<rparr>))"

definition passphrase :: "db_Root \<Rightarrow> string" where
  "passphrase root = ''Test SDF Network ; September 2015''"

definition time_Minute :: Duration where
  "time_Minute = 60000000000"

text \<open>
  Modelled from the spec: \<^verbatim>\<open>getChannel\<close> and \<^verbatim>\<open>putChannel\<close> (not in
  \<^verbatim>\<open>agent.go\<close>). The agent ``looks up (or creates) the channel'': a channel that is
  not stored is a fresh record in \<open>Start\<close>. \<open>channels\<close> is a ``mapping from channel
  ID to channel record''; the bucket keeps its keys in byte order.
\<close>

definition Channel0 :: "string \<Rightarrow> Channel" where
  "Channel0 chanID =
     \<lparr>ch_ID = chanID, ch_Role = Guest, ch_State = Start, ch_HostAmount = 0,
      ch_CounterpartyAddress = [], ch_RemoteURL = [], ch_Passphrase = [],
      ch_MaxRoundDuration = 0, ch_FinalityDelay = 0, ch_ChannelFeerate = 0,
      ch_HostFeerate = 0, ch_FundingTime = 0, ch_PaymentTime = 0, ch_KeyIndex = 0,
      ch_HostAcct = [], ch_GuestAcct = [], ch_EscrowAcct = [], ch_HostRatchetAcct = [],
      ch_GuestRatchetAcct = [], ch_RoundNumber = 0\<rparr>"

definition getChannel :: "db_Root \<Rightarrow> string \<Rightarrow> Channel" where
  "getChannel root chanID =
     (case map_of (Channels root) chanID of Some c \<Rightarrow> c | None \<Rightarrow> Channel0 chanID)"

definition putChannel :: "db_Root \<Rightarrow> string \<Rightarrow> Channel \<Rightarrow> db_Root" where
  "putChannel root chanID c =
     root\<lparr>Channels := insort_key fst (chanID, c) (filter (\<lambda>kv. fst kv \<noteq> chanID) (Channels root))\<rparr>"

text \<open>
  The channel record that \<^verbatim>\<open>DoCreateChannel\<close> builds, as its composite literal has
  it: the host account is set afterwards, and the state is the zero state, \<open>Start\<close>.
\<close>

definition DoCreateChannel_channel ::
  "Env \<Rightarrow> db_Root \<Rightarrow> string \<Rightarrow> Amount \<Rightarrow> string \<Rightarrow> string \<Rightarrow> 32 word
     \<Rightarrow> KeyPair \<Rightarrow> KeyPair \<Rightarrow> KeyPair \<Rightarrow> Time \<Rightarrow> Channel" where
  "DoCreateChannel_channel env root guestFedAddr hostAmount guestAcctStr starlightURL
       channelKeyIndex channelKeyPair firstThrowawayKeyPair secondThrowawayKeyPair fundingTime =
     \<lparr>ch_ID = kp_Address channelKeyPair,
      ch_Role = Host,
      ch_State = Start,
      ch_HostAmount = hostAmount,
      ch_CounterpartyAddress = guestFedAddr,
      ch_RemoteURL = starlightURL,
      ch_Passphrase = passphrase root,
      ch_MaxRoundDuration = db_MaxRoundDurMin (agent_Config root) * time_Minute,
      ch_FinalityDelay = db_FinalityDelayMin (agent_Config root) * time_Minute,
      ch_ChannelFeerate = db_ChannelFeerate (agent_Config root),
      ch_HostFeerate = db_HostFeerate (agent_Config root),
      ch_FundingTime = fundingTime,
      ch_PaymentTime = fundingTime,
      ch_KeyIndex = channelKeyIndex,
      ch_HostAcct = [],
      ch_GuestAcct = guestAcctStr,
      ch_EscrowAcct = kp_Address channelKeyPair,
      ch_HostRatchetAcct = kp_Address firstThrowawayKeyPair,
      ch_GuestRatchetAcct = kp_Address secondThrowawayKeyPair,
      ch_RoundNumber = 1\<rparr>"

text \<open>
  The function \<^verbatim>\<open>DoCreateChannel\<close> runs inside \<^verbatim>\<open>db.Update\<close>. Its result carries
  the variable \<^verbatim>\<open>ch\<close> of the enclosing function, which the function assigns on the
  way. \<^verbatim>\<open>SetAddress\<close> on an account stores the address it accepts.
\<close>

definition DoCreateChannel_update ::
  "Env \<Rightarrow> string \<Rightarrow> Amount \<Rightarrow> string \<Rightarrow> string \<Rightarrow> string \<Rightarrow> string \<Rightarrow> Agent
     \<Rightarrow> error option \<times> Channel option \<times> Agent" where
  "DoCreateChannel_update env guestFedAddr hostAmount hostURL hostAcctStr guestAcctStr starlightURL g =
     (let root = db g
      in if \<not> isReadyFunded root then (Some errNotFunded, None, g)
         else
           let w = (Wallet root)\<lparr>Seqnum := Seqnum (Wallet root) + 3,
                                  Address := db_Username (agent_Config root) @ ''*'' @ hostURL\<rparr>
           in case SetAddress env guestAcctStr of
                Some err \<Rightarrow> (Some (Wrap err (''setting guest address '' @ guestAcctStr)), None, g)
              | None \<Rightarrow>
                 (case nextChannelKeyIndex root 3 of
                    (channelKeyIndex, root1) \<Rightarrow>
                      let g1 = g\<lparr>db := root1\<rparr>;
                          channelKeyPair = DeriveAccount env (seed g) channelKeyIndex;
                          channelID = kp_Address channelKeyPair
                      in case SetAddress env (kp_Address channelKeyPair) of
                           Some err \<Rightarrow>
                             (Some (Wrap err (''setting escrow address '' @ kp_Address channelKeyPair)),
                              None, g1)
                         | None \<Rightarrow>
                            let firstThrowawayKeyPair = DeriveAccount env (seed g) (channelKeyIndex + 1)
                            in case SetAddress env (kp_Address firstThrowawayKeyPair) of
                                 Some err \<Rightarrow>
                                   (Some (Wrap err (''setting host ratchet address ''
                                      @ kp_Address firstThrowawayKeyPair)), None, g1)
                               | None \<Rightarrow>
                                  let secondThrowawayKeyPair =
                                        DeriveAccount env (seed g) (channelKeyIndex + 2)
                                  in case SetAddress env (kp_Address secondThrowawayKeyPair) of
                                       Some err \<Rightarrow>
                                         (Some (Wrap err (''setting guest ratchet address ''
                                            @ kp_Address secondThrowawayKeyPair)), None, g1)
                                     | None \<Rightarrow>
                                        let fundingTime = Now env;
                                            ch0 = getChannel root1 channelID
                                        in if ch_State ch0 \<noteq> Start
                                           then (Some (Wrap ErrExists channelID), Some ch0, g1)
                                           else
                                             let ch1 = DoCreateChannel_channel env root1 guestFedAddr hostAmount
                                                         guestAcctStr starlightURL channelKeyIndex
                                                         channelKeyPair firstThrowawayKeyPair
                                                         secondThrowawayKeyPair fundingTime
                                             in case SetAddress env hostAcctStr of
                                                  Some err \<Rightarrow>
                                                    (Some (Wrap err ''setting host address''), Some ch1, g1)
                                                | None \<Rightarrow>
                                                   let ch = ch1\<lparr>ch_HostAcct := hostAcctStr\<rparr>;
                                                       newBalance =
                                                         Balance w - SetupAndFundingReserveAmount env ch
                                                   in if newBalance <s 0
                                                      then (Some (Wrap errInsufficientBalance
                                                              (Amount_String env (Balance w))), Some ch, g1)
                                                      else
                                                        let w' = w\<lparr>Balance := newBalance\<rparr>;
                                                            root2 = putChannel root1 channelID ch;
                                                            root3 = root2\<lparr>Wallet := w'\<rparr>
                                                        in case doUpdateChannel env root3 (ch_ID ch)
                                                                  \<lparr>cmd_UserCommand = CreateChannel,
                                                                   cmd_Amount = ch_HostAmount ch,
                                                                   cmd_Recipient = guestFedAddr,
                                                                   cmd_Time = None\<rparr> of
                                                             (err, root4) \<Rightarrow>
                                                               (err, Some ch, g1\<lparr>db := root4\<rparr>)))"

definition DoCreateChannel ::
  "Env \<Rightarrow> string \<Rightarrow> Amount \<Rightarrow> string \<Rightarrow> Agent \<Rightarrow> (Channel option \<times> error option) \<times> Agent" where
  "DoCreateChannel env guestFedAddr hostAmount hostURL g =
     (if guestFedAddr = [] then ((None, Some errEmptyAddress), g)
      else if hostAmount = 0 then ((None, Some errEmptyAmount), g)
      else
        let hostAcctStr = PrimaryAcct (db g)
        in case FindAccount env guestFedAddr of
             (guestAcctStr, starlightURL, err) \<Rightarrow>
               (case err of
                  Some e \<Rightarrow> ((None, Some (Wrap e (''finding account '' @ guestFedAddr))), g)
                | None \<Rightarrow>
                    if guestAcctStr = hostAcctStr then ((None, Some errAcctsSame), g)
                    else
                      (case checkChannelUnique g hostAcctStr guestAcctStr of
                         Some e \<Rightarrow> ((None, Some e), g)
                       | None \<Rightarrow>
                           (case db_Update (DoCreateChannel_update env guestFedAddr hostAmount
                                   hostURL hostAcctStr guestAcctStr starlightURL) g of
                              (err, ch, g') \<Rightarrow> ((ch, err), g')))))"

section \<open>Paying from the wallet\<close>

text \<open>
  Modelled from the spec: \<^verbatim>\<open>tb.AddTx\<close> of the task basket (not in \<^verbatim>\<open>agent.go\<close>):
  ``\<open>add(tx, task)\<close> must be called inside a durable update; task becomes visible
  only on commit''. A task that is added joins the persistent queue.
\<close>

definition tb_AddTx :: "Env \<Rightarrow> db_Root \<Rightarrow> Task \<Rightarrow> error option \<times> db_Root" where
  "tb_AddTx env root t =
     (case AddTx_error env t of
        Some err \<Rightarrow> (Some err, root)
      | None \<Rightarrow> (None, root\<lparr>Tasks := Tasks root @ [t]\<rparr>))"

definition addTxTask :: "Env \<Rightarrow> db_Root \<Rightarrow> string \<Rightarrow> string \<Rightarrow> error option \<times> db_Root" where
  "addTxTask env root chanID e = tb_AddTx env root (TbTx chanID e)"

definition DoWalletPay_update :: "Env \<Rightarrow> string \<Rightarrow> Amount \<Rightarrow> Agent \<Rightarrow> error option \<times> unit \<times> Agent" where
  "DoWalletPay_update env dest amount g =
     (let root = db g;
          w = Wallet root
      in if Balance w \<le>s amount + db_HostFeerate (agent_Config root)
         then (Some (errors_New ''insufficient funds''), (), g)
         else
           let w1 = w\<lparr>Balance := Balance w - amount\<rparr>;
               w2 = w1\<lparr>Balance := Balance w1 - db_HostFeerate (agent_Config root)\<rparr>;
               w3 = w2\<lparr>Seqnum := Seqnum w2 + 1\<rparr>;
               root1 = root\<lparr>Wallet := w3\<rparr>;
               hostAcct = PrimaryAcct root1
           in case b_Transaction env (passphrase root1) hostAcct (Seqnum w3) dest
                     (HorizonString env amount) of
                Inl err \<Rightarrow> (Some err, (), g\<lparr>db := root1\<rparr>)
              | Inr btx \<Rightarrow>
                  let k = DeriveAccountPrimary env (seed g)
                  in case Sign env btx (kp_Seed k) of
                       Inl err \<Rightarrow> (Some err, (), g\<lparr>db := root1\<rparr>)
                     | Inr e \<Rightarrow>
                         let time = Now env;
                             root2 = putUpdate root1
                               ((Update0 AccountType)\<lparr>
                                  upd_Account := Some \<lparr>ua_ID = hostAcct, ua_Balance = Balance w3\<rparr>,
                                  upd_InputCommand := Some \<lparr>cmd_UserCommand = Pay,
                                    cmd_Amount = amount, cmd_Recipient = dest,
                                    cmd_Time = Some time\<rparr>,
                                  upd_InputLedgerTime := Some time,
                                  upd_PendingSequence := FormatInt env (Seqnum w3)\<rparr>)
                         in case addTxTask env root2 (walletBucket env) e of
                              (err, root3) \<Rightarrow> (err, (), g\<lparr>db := root3\<rparr>))"

definition DoWalletPay :: "Env \<Rightarrow> string \<Rightarrow> Amount \<Rightarrow> Agent \<Rightarrow> error option \<times> Agent" where
  "DoWalletPay env dest amount g =
     (if dest = [] then (Some errEmptyAddress, g)
      else if amount = 0 then (Some errEmptyAmount, g)
      else (case db_Update (DoWalletPay_update env dest amount) g of (err, u, g') \<Rightarrow> (err, g')))"

section \<open>The wallet watcher\<close>

text \<open>
  \<^verbatim>\<open>watchWalletAcct\<close> hands each streamed transaction to a callback. The callback
  decodes it, drops it unless its result code is success, and otherwise walks its
  operations inside one update. The body of that loop is \<open>watchWalletAcct_op\<close>.
\<close>

definition accountUpdate :: "string \<Rightarrow> WalletAcct \<Rightarrow> Tx \<Rightarrow> nat \<Rightarrow> Update" where
  "accountUpdate acctID w InputTx index =
     (Update0 AccountType)\<lparr>
        upd_Account := Some \<lparr>ua_ID = acctID, ua_Balance = Balance w\<rparr>,
        upd_InputTx := Some InputTx,
        upd_OpIndex := index\<rparr>"

definition mergeAmount :: "Tx \<Rightarrow> nat \<Rightarrow> error + 64 word" where
  "mergeAmount InputTx index =
     (case tx_Results InputTx of
        None \<Rightarrow> Inl (Panic ''nil pointer dereference'')
      | Some results \<Rightarrow>
          if index < length results then
            (case results ! index of
               None \<Rightarrow> Inl (Panic ''nil pointer dereference'')
             | Some balance \<Rightarrow> Inr balance)
          else Inl (Panic ''index out of range''))"

fun watchWalletAcct_op ::
  "string \<Rightarrow> worizon_Tx \<Rightarrow> Tx \<Rightarrow> nat \<Rightarrow> OperationBody \<Rightarrow> db_Root \<Rightarrow> error + db_Root" where
  "watchWalletAcct_op acctID htx InputTx index (CreateAccountOp Destination StartingBalance) root =
     (if Destination \<noteq> acctID then Inr root
      else
        let seqnum = push_bit 32 (scast (Ledger htx) :: 64 word);
            w = \<lparr>Balance = StartingBalance, Seqnum = seqnum, Cursor = PT htx, Address = []\<rparr>
        in Inr (putUpdate (root\<lparr>Wallet := w\<rparr>) (accountUpdate acctID w InputTx index)))"
| "watchWalletAcct_op acctID htx InputTx index (PaymentOp Destination asset amount) root =
     (if Destination \<noteq> acctID then Inr root
      else if asset \<noteq> AssetTypeAssetTypeNative then Inr root
      else
        let w = (Wallet root)\<lparr>Balance := Balance (Wallet root) + amount, Cursor := PT htx\<rparr>
        in Inr (putUpdate (root\<lparr>Wallet := w\<rparr>) (accountUpdate acctID w InputTx index)))"
| "watchWalletAcct_op acctID htx InputTx index (AccountMergeOp Destination) root =
     (if Destination \<noteq> acctID then Inr root
      else
        (case mergeAmount InputTx index of
           Inl e \<Rightarrow> Inl e
         | Inr amount \<Rightarrow>
             let w = (Wallet root)\<lparr>Balance := Balance (Wallet root) + amount, Cursor := PT htx\<rparr>
             in Inr (putUpdate (root\<lparr>Wallet := w\<rparr>) (accountUpdate acctID w InputTx index))))"
| "watchWalletAcct_op acctID htx InputTx index (OtherOp t) root = Inr root"

fun watchWalletAcct_ops ::
  "string \<Rightarrow> worizon_Tx \<Rightarrow> Tx \<Rightarrow> nat \<Rightarrow> OperationBody list \<Rightarrow> db_Root \<Rightarrow> error + db_Root" where
  "watchWalletAcct_ops acctID htx InputTx index [] root = Inr root"
| "watchWalletAcct_ops acctID htx InputTx index (op # ops) root =
     (case watchWalletAcct_op acctID htx InputTx index op root of
        Inl e \<Rightarrow> Inl e
      | Inr root' \<Rightarrow> watchWalletAcct_ops acctID htx InputTx (Suc index) ops root')"

text \<open>The first step of the update: a transaction sent by the account itself is logged.\<close>

definition watchWalletAcct_sent :: "string \<Rightarrow> worizon_Tx \<Rightarrow> Tx \<Rightarrow> db_Root \<Rightarrow> db_Root" where
  "watchWalletAcct_sent acctID htx InputTx root =
     (if tx_SourceAccount InputTx = acctID
      then putUpdate (root\<lparr>Wallet := (Wallet root)\<lparr>Cursor := PT htx\<rparr>\<rparr>)
             ((Update0 TxSuccessType)\<lparr>upd_InputTx := Some InputTx\<rparr>)
      else root)"

definition watchWalletAcct_update ::
  "string \<Rightarrow> worizon_Tx \<Rightarrow> Tx \<Rightarrow> Agent \<Rightarrow> error option \<times> unit \<times> Agent" where
  "watchWalletAcct_update acctID htx InputTx g =
     (let root = db g;
          root1 = watchWalletAcct_sent acctID htx InputTx root
      in case watchWalletAcct_ops acctID htx InputTx 0 (tx_Operations InputTx) root1 of
           Inl e \<Rightarrow> (Some e, (), g)
         | Inr root2 \<Rightarrow> (None, (), g\<lparr>db := root2\<rparr>))"

text \<open>
  The callback. The update function returns no error of its own; what comes back from
  the update is a panic of the account-merge case.
\<close>

definition watchWalletAcct_tx :: "Env \<Rightarrow> string \<Rightarrow> worizon_Tx \<Rightarrow> Agent \<Rightarrow> error option \<times> Agent" where
  "watchWalletAcct_tx env acctID htx g =
     (case NewTx env htx of
        Inl err \<Rightarrow> (Some err, g)
      | Inr InputTx \<Rightarrow>
          if tx_ResultCode InputTx \<noteq> TransactionResultCodeTxSuccess then (None, g)
          else
            (case db_Update (watchWalletAcct_update acctID htx InputTx) g of
               (err, u, g') \<Rightarrow> (err, g')))"

text \<open>
  Modelled from the spec: \<^verbatim>\<open>StreamTxs\<close> of the ledger client (not in \<^verbatim>\<open>agent.go\<close>)
  ``delivers successful transactions indefinitely''. On the transactions delivered so
  far, \<^verbatim>\<open>watchWalletAcct\<close> runs the callback on each in turn; an error of the
  callback ends the stream, and the watcher ends the process with it.
\<close>

fun watchWalletAcct :: "Env \<Rightarrow> string \<Rightarrow> worizon_Tx list \<Rightarrow> Agent \<Rightarrow> error option \<times> Agent" where
  "watchWalletAcct env acctID [] g = (None, g)"
| "watchWalletAcct env acctID (htx # htxs) g =
     (case watchWalletAcct_tx env acctID htx g of
        (Some err, g') \<Rightarrow> (Some err, g')
      | (None, g') \<Rightarrow> watchWalletAcct env acctID htxs g')"

section \<open>An agent and its surroundings, for evaluation\<close>

text \<open>
  A concrete environment: every address is accepted, federation resolves any name to
  the account \<open>GBOB\<close> at \<open>https://bob.example\<close>, the reserve of a channel is its
  host amount plus 25 lumens, keys are derived to fixed addresses, and nothing fails.
\<close>

definition env0 :: Env where
  "env0 = \<lparr>
     ValidateTestnetURL = (\<lambda>url. None),
     validateUsername = (\<lambda>name. name \<noteq> []),
     randRead = replicate 32 7,
     DeriveAccountPrimary = (\<lambda>sd. \<lparr>kp_Address = ''GALICE'', kp_Seed = ''SALICE''\<rparr>),
     DeriveAccount = (\<lambda>sd i. \<lparr>kp_Address = (if i = 1 then ''GESCROW'' else if i = 2 then ''GHOSTRATCHET''
                                      else ''GGUESTRATCHET''), kp_Seed = ''S''\<rparr>),
     GenerateFromPassword = (\<lambda>pw. Inr [1, 2, 3]),
     CompareHashAndPassword = (\<lambda>digest pw. None),
     sealBox = (\<lambda>sd pw. [9]),
     SetAddress = (\<lambda>a. None),
     FindAccount = (\<lambda>a. (''GBOB'', ''https://bob.example'', None)),
     SequenceForAccount = (\<lambda>a. Inr 1),
     Now = 0,
     SetupAndFundingReserveAmount = (\<lambda>ch. ch_HostAmount ch + 250000000),
     Amount_String = (\<lambda>a. ''amount''),
     HorizonString = (\<lambda>a. ''amount''),
     doUpdateChannel = (\<lambda>root chanID c. (None, root)),
     updateChannel = (\<lambda>root m fetched. (None, root)),
     startChannel = (\<lambda>root chanID. None),
     NewTx = (\<lambda>htx. Inl (External ''decode'')),
     b_Transaction = (\<lambda>pass src seqnum dest amount. Inr ''tx''),
     Sign = (\<lambda>btx sd. Inr ''env''),
     AddTx_error = (\<lambda>t. None),
     walletBucket = ''wallet'',
     Error_text = (\<lambda>e. ''error''),
     FormatInt = (\<lambda>n. ''n''),
     xlm_Millilumen = 10000,
     xlm_Stroop = 1\<rparr>"

definition config0 :: db_Config where
  "config0 = \<lparr>db_Username = ''alice'', db_PwType = ''bcrypt'', db_PwHash = [1, 2, 3],
     db_HorizonURL = ''https://horizon-testnet.stellar.org'', db_MaxRoundDurMin = 1440,
     db_FinalityDelayMin = 240, db_ChannelFeerate = 100000, db_HostFeerate = 100,
     db_KeepAlive = True\<rparr>"

text \<open>A configured and funded agent with 1000 lumens and no channel.\<close>

definition root0 :: db_Root where
  "root0 = \<lparr>agent_Config = config0, EncryptedSeed = [9], NextKeypathIndex = 1,
     PrimaryAcct = ''GALICE'',
     Wallet = \<lparr>Balance = 10000000000, Seqnum = 4294967296, Cursor = ''1'', Address = []\<rparr>,
     Channels = [], Updates = [], Tasks = []\<rparr>"

definition agent0 :: Agent where
  "agent0 = \<lparr>seed = Some (replicate 32 7), wclient_URL = ''https://horizon-testnet.stellar.org'',
     launched = [], db = root0\<rparr>"

text \<open>A new agent: nothing stored, no seed.\<close>

definition root_new :: db_Root where
  "root_new = \<lparr>agent_Config = \<lparr>db_Username = [], db_PwType = [], db_PwHash = [],
       db_HorizonURL = [], db_MaxRoundDurMin = 0, db_FinalityDelayMin = 0,
       db_ChannelFeerate = 0, db_HostFeerate = 0, db_KeepAlive = False\<rparr>,
     EncryptedSeed = [], NextKeypathIndex = 0, PrimaryAcct = [],
     Wallet = \<lparr>Balance = 0, Seqnum = 0, Cursor = [], Address = []\<rparr>,
     Channels = [], Updates = [], Tasks = []\<rparr>"

definition agent_new :: Agent where
  "agent_new = \<lparr>seed = None, wclient_URL = [], launched = [], db = root_new\<rparr>"

definition Config0 :: Config where
  "Config0 = \<lparr>Username = [], Password = [], HorizonURL = [], OldPassword = [],
     MaxRoundDurMin = 0, FinalityDelayMin = 0, ChannelFeerate = 0, HostFeerate = 0,
     KeepAlive = None\<rparr>"

text \<open>A channel proposal from \<open>GBOB\<close> to the agent, and the request that carries it.\<close>

definition propose0 :: ChannelProposeMsg where
  "propose0 = \<lparr>p_HostAcct = ''GBOB'', p_GuestAcct = ''GALICE'', p_HostRatchetAcct = ''GHR'',
     p_GuestRatchetAcct = ''GGR'', p_CounterpartyAddress = ''bob*bob.example''\<rparr>"

definition message0 :: Message where
  "message0 = \<lparr>ChannelID = ''GESCROWBOB'', ChannelProposeMsg = Some propose0, msg_Payload = []\<rparr>"

definition request0 :: Request where
  "request0 = \<lparr>query_type = [], query_q = [], req_Host = ''alice.example'',
     req_Body = Some message0\<rparr>"

text \<open>The same surroundings with a ledger client that times out on sequence numbers.\<close>

definition env_timeout :: Env where
  "env_timeout = env0\<lparr>SequenceForAccount := (\<lambda>a. Inl (External ''timeout''))\<rparr>"

text \<open>Surroundings in which federation resolves to the agent's own account.\<close>

definition env_self :: Env where
  "env_self = env0\<lparr>FindAccount := (\<lambda>a. (''GALICE'', ''https://alice.example'', None))\<rparr>"

text \<open>Surroundings in which the ledger client decodes a friendbot funding transaction.\<close>

definition tx_funding :: Tx where
  "tx_funding = \<lparr>tx_SourceAccount = ''GFRIENDBOT'',
     tx_Operations = [CreateAccountOp ''GALICE'' 100000000000],
     tx_ResultCode = TransactionResultCodeTxSuccess, tx_Results = None\<rparr>"

definition tx_failed :: Tx where
  "tx_failed = tx_funding\<lparr>tx_ResultCode := TransactionResultCodeOther (-1)\<rparr>"

definition htx0 :: worizon_Tx where
  "htx0 = \<lparr>PT = ''42'', Ledger = 7, htx_Xdr = []\<rparr>"

definition env_funding :: Env where
  "env_funding = env0\<lparr>NewTx := (\<lambda>htx. Inr tx_funding)\<rparr>"

definition env_failed :: Env where
  "env_failed = env0\<lparr>NewTx := (\<lambda>htx. Inr tx_failed)\<rparr>"

text \<open>The agent with a channel in which it is the guest of \<open>GBOB\<close>.\<close>

definition agent_chan :: Agent where
  "agent_chan = agent0\<lparr>db := root0\<lparr>Channels :=
     [(''GOLD'', (Channel0 ''GOLD'')\<lparr>ch_State := Open, ch_HostAcct := ''GBOB'',
                                      ch_GuestAcct := ''GALICE''\<rparr>)]\<rparr>\<rparr>"

text \<open>The agent with 100 stroops in its wallet.\<close>

definition agent_poor :: Agent where
  "agent_poor = agent0\<lparr>db := root0\<lparr>Wallet := (Wallet root0)\<lparr>Balance := 100\<rparr>\<rparr>\<rparr>"

text \<open>The agent whose wallet holds exactly the reserve of a channel of 1000 stroops.\<close>

definition agent_exact :: Agent where
  "agent_exact = agent0\<lparr>db := root0\<lparr>Wallet := (Wallet root0)\<lparr>Balance := 250001000\<rparr>\<rparr>\<rparr>"

text \<open>
  The agent with the wallet that a payment of \<open>2 ^ 63 - 1\<close> stroops leaves behind: the
  balance is negative.
\<close>

definition agent_overdrawn :: Agent where
  "agent_overdrawn = agent0\<lparr>db := root0\<lparr>Wallet :=
     (Wallet root0)\<lparr>Balance := - 9223372026854775907, Seqnum := 4294967297\<rparr>\<rparr>\<rparr>"

text \<open>The agent whose next key index is the last but one of the 32-bit range.\<close>

definition agent_lastkey :: Agent where
  "agent_lastkey = agent0\<lparr>db := root0\<lparr>NextKeypathIndex := 0xFFFFFFFE\<rparr>\<rparr>"

text \<open>
  The operations that the specification has the watcher ignore: an operation whose
  destination is not the primary account, a payment that is not native, and any
  operation that is neither create-account, payment nor account-merge.
\<close>

fun spec_ignored :: "string \<Rightarrow> OperationBody \<Rightarrow> bool" where
  "spec_ignored acctID (CreateAccountOp Destination StartingBalance) \<longleftrightarrow> Destination \<noteq> acctID"
| "spec_ignored acctID (PaymentOp Destination asset amount) \<longleftrightarrow>
     Destination \<noteq> acctID \<or> asset \<noteq> AssetTypeAssetTypeNative"
| "spec_ignored acctID (AccountMergeOp Destination) \<longleftrightarrow> Destination \<noteq> acctID"
| "spec_ignored acctID (OtherOp t) \<longleftrightarrow> True"

section \<open>The federation endpoint answers with the host appended twice\<close>

lemma handleFed_name:
  "query_type req = ''name'' \<Longrightarrow>
   handleFed g req =
     (if query_q req = db_Username (agent_Config (db g)) @ ''*'' @ req_Host req
      then \<lparr>status = 200,
            body = JsonObject [(''account_id'', PrimaryAcct (db g)),
                               (''stellar_address'', query_q req @ ''*'' @ req_Host req)]\<rparr>
      else http_Error ''not found'' 404)"
  by (simp add: handleFed_def Let_def)

text \<open>
  C1. A federation request of type \<open>name\<close> whose \<open>q\<close> is the user name, \<open>*\<close> and the
  Host header should be answered with a JSON object whose \<open>stellar_address\<close> is \<open>q\<close>
  and whose \<open>account_id\<close> is the primary account. At user \<open>alice\<close>, host
  \<open>example.com\<close> and \<open>q = alice*example.com\<close> the address answered is
  \<open>alice*example.com*example.com\<close>: the handler appends \<open>*\<close> and the host to a
  \<open>q\<close> that it has just checked to end with them.
\<close>

theorem handleFed_stellar_address_doubled:
  "handleFed agent0 \<lparr>query_type = ''name'', query_q = ''alice*example.com'',
      req_Host = ''example.com'', req_Body = None\<rparr>
   = \<lparr>status = 200,
      body = JsonObject [(''account_id'', ''GALICE''),
                         (''stellar_address'', ''alice*example.com*example.com'')]\<rparr>"
  by (simp add: handleFed_def agent0_def root0_def config0_def)

section \<open>Statuses of the peer message endpoint\<close>

lemma handleMsg_dispatch_status:
  "status (fst (handleMsg_dispatch env g m fetched)) =
     (case fst (updateChannel env (db g) m fetched) of
        None \<Rightarrow> 200
      | Some e \<Rightarrow> if Root e = ErrExists \<or> Root e = fsm_ErrChannelExists then 205 else 500)"
  by (simp add: handleMsg_dispatch_def http_Error_def split: prod.splits option.splits)




section \<open>Editing the configuration\<close>

text \<open>
  \<^verbatim>\<open>ConfigEdit\<close> rejects a user name. It never reads the round duration, the finality
  delay, the two fee rates or the keep-alive flag of its argument.
\<close>

lemma ConfigEdit_Username:
  "Username c \<noteq> [] \<Longrightarrow> ConfigEdit env c g = (Some errInvalidEdit, g)"
  by (simp add: ConfigEdit_def)

lemma ConfigEdit_update_ignores_other_fields:
  "ConfigEdit_update env (c\<lparr>MaxRoundDurMin := a, FinalityDelayMin := b, ChannelFeerate := x,
                             HostFeerate := y, KeepAlive := k\<rparr>)
   = ConfigEdit_update env c"
  by (rule ext)
    (simp add: ConfigEdit_update_def ConfigEdit_password_def Let_def
       cong: if_cong option.case_cong sum.case_cong)

lemma ConfigEdit_ignores_other_fields:
  "ConfigEdit env (c\<lparr>MaxRoundDurMin := a, FinalityDelayMin := b, ChannelFeerate := x,
                      HostFeerate := y, KeepAlive := k\<rparr>) g
   = ConfigEdit env c g"
  by (simp add: ConfigEdit_def ConfigEdit_update_ignores_other_fields
      cong: if_cong option.case_cong)

text \<open>
  C3. An edit in which a field other than the two passwords and the Horizon URL is
  set should be an error that leaves the stored configuration alone; the comment on
  \<^verbatim>\<open>ConfigEdit\<close> says ``attempting to change another field is an error''. An edit
  that sets a round duration of 5 minutes and a new Horizon URL returns no error and
  stores the URL.
\<close>

theorem ConfigEdit_accepts_MaxRoundDurMin:
  "fst (ConfigEdit env0 (Config0\<lparr>HorizonURL := ''https://other-testnet.example'',
                                  MaxRoundDurMin := 5\<rparr>) agent0) = None
   \<and> db_HorizonURL (agent_Config (db (snd (ConfigEdit env0
         (Config0\<lparr>HorizonURL := ''https://other-testnet.example'', MaxRoundDurMin := 5\<rparr>)
         agent0))))
       = ''https://other-testnet.example''
   \<and> db_HorizonURL (agent_Config (db agent0)) = ''https://horizon-testnet.stellar.org''
   \<and> ConfigEdit env0 (Config0\<lparr>MaxRoundDurMin := 5\<rparr>) agent0 = (None, agent0)"
  by (simp add: ConfigEdit_def Config0_def env0_def db_Update_def ConfigEdit_update_def
      ConfigEdit_password_def isReadyConfigured_def agent0_def root0_def config0_def putUpdate_def)

section \<open>Channels that may not be created\<close>

lemma checkChannelUnique_ForEach_exists:
  "(\<exists>c \<in> snd ` set chans. {ch_HostAcct c, ch_GuestAcct c} = {a, b})
   \<Longrightarrow> \<exists>e. checkChannelUnique_ForEach a b chans = Some e \<and> Root e = ErrExists"
proof (induction chans)
  case Nil
  then show ?case by simp
next
  case (Cons kv chans)
  obtain k c where kv: "kv = (k, c)" by (cases kv)
  show ?case
  proof (cases "(a = ch_HostAcct c \<and> b = ch_GuestAcct c) \<or> (a = ch_GuestAcct c \<and> b = ch_HostAcct c)")
    case True
    then show ?thesis by (simp add: kv)
  next
    case False
    then have "{ch_HostAcct c, ch_GuestAcct c} \<noteq> {a, b}"
      by (auto simp: doubleton_eq_iff)
    with Cons.prems kv have "\<exists>c \<in> snd ` set chans. {ch_HostAcct c, ch_GuestAcct c} = {a, b}"
      by auto
    from Cons.IH [OF this] False show ?thesis by (simp add: kv Let_def)
  qed
qed

lemma checkChannelUnique_ForEach_None:
  "checkChannelUnique_ForEach a b chans = None \<longleftrightarrow>
   (\<forall>c \<in> snd ` set chans. {ch_HostAcct c, ch_GuestAcct c} \<noteq> {a, b})"
  by (induction chans) (auto simp: doubleton_eq_iff Let_def split: if_splits)

text \<open>
  C4. Once federation has resolved the guest: a guest account equal to the primary
  account makes \<^verbatim>\<open>DoCreateChannel\<close> fail with the same-accounts error, and a stored
  channel whose host and guest accounts are, as an unordered pair, the primary
  account and the guest account makes it fail, with an error whose root is
  \<open>ErrExists\<close> when the two accounts differ (when they are equal the first check has
  answered). In both cases the agent and its store are as before: no channel is
  created.
\<close>

theorem DoCreateChannel_rejects:
  assumes "guestFedAddr \<noteq> []" and "hostAmount \<noteq> 0"
    and "FindAccount env guestFedAddr = (guestAcctStr, starlightURL, None)"
  shows "(guestAcctStr = PrimaryAcct (db g) \<longrightarrow>
           DoCreateChannel env guestFedAddr hostAmount hostURL g = ((None, Some errAcctsSame), g))
     \<and> ((\<exists>c \<in> snd ` set (Channels (db g)).
            {ch_HostAcct c, ch_GuestAcct c} = {PrimaryAcct (db g), guestAcctStr}) \<longrightarrow>
          (\<exists>e. DoCreateChannel env guestFedAddr hostAmount hostURL g = ((None, Some e), g)
             \<and> (guestAcctStr \<noteq> PrimaryAcct (db g) \<longrightarrow> Root e = ErrExists)))"
proof (intro conjI impI)
  assume "guestAcctStr = PrimaryAcct (db g)"
  with assms show "DoCreateChannel env guestFedAddr hostAmount hostURL g = ((None, Some errAcctsSame), g)"
    by (simp add: DoCreateChannel_def)
next
  assume ex: "\<exists>c \<in> snd ` set (Channels (db g)).
            {ch_HostAcct c, ch_GuestAcct c} = {PrimaryAcct (db g), guestAcctStr}"
  show "\<exists>e. DoCreateChannel env guestFedAddr hostAmount hostURL g = ((None, Some e), g)
             \<and> (guestAcctStr \<noteq> PrimaryAcct (db g) \<longrightarrow> Root e = ErrExists)"
  proof (cases "guestAcctStr = PrimaryAcct (db g)")
    case True
    with assms show ?thesis by (simp add: DoCreateChannel_def)
  next
    case False
    from checkChannelUnique_ForEach_exists [OF ex] obtain e where
      "checkChannelUnique g (PrimaryAcct (db g)) guestAcctStr = Some e" "Root e = ErrExists"
      by (auto simp: checkChannelUnique_def)
    with assms False show ?thesis by (simp add: DoCreateChannel_def)
  qed
qed

text \<open>
  The agent that is already the guest of \<open>GBOB\<close> cannot open a channel to \<open>GBOB\<close>,
  and no agent can open a channel to itself.
\<close>

theorem DoCreateChannel_rejects_witness:
  "DoCreateChannel env0 ''bob*bob.example'' 5 ''alice.example'' agent_chan
     = ((None, Some (Wrap ErrExists ''between host GBOB and guest GALICE'')), agent_chan)
   \<and> Root (Wrap ErrExists ''between host GBOB and guest GALICE'') = ErrExists
   \<and> DoCreateChannel env_self ''alice*alice.example'' 5 ''alice.example'' agent0
     = ((None, Some errAcctsSame), agent0)"
proof -
  have a: "''bob*bob.example'' \<noteq> []" and b: "(5 :: 64 word) \<noteq> 0" and a': "''alice*alice.example'' \<noteq> []"
    by simp_all
  have f: "FindAccount env0 ''bob*bob.example'' = (''GBOB'', ''https://bob.example'', None)"
    by (simp add: env0_def)
  have f': "FindAccount env_self ''alice*alice.example'' = (''GALICE'', ''https://alice.example'', None)"
    by (simp add: env_self_def)
  have ex: "\<exists>c \<in> snd ` set (Channels (db agent_chan)).
              {ch_HostAcct c, ch_GuestAcct c} = {PrimaryAcct (db agent_chan), ''GBOB''}"
    by (simp add: agent_chan_def root0_def doubleton_eq_iff)
  have ne: "''GBOB'' \<noteq> PrimaryAcct (db agent_chan)"
    by (simp add: agent_chan_def root0_def)
  have eq: "''GALICE'' = PrimaryAcct (db agent0)"
    by (simp add: agent0_def root0_def)
  from DoCreateChannel_rejects [OF a b f, of agent_chan "''alice.example''"] ex ne
  obtain e where e: "DoCreateChannel env0 ''bob*bob.example'' 5 ''alice.example'' agent_chan
      = ((None, Some e), agent_chan)" "Root e = ErrExists"
    by blast
  have "e = Wrap ErrExists ''between host GBOB and guest GALICE''"
    using e(1)
    by (simp add: DoCreateChannel_def env0_def agent_chan_def agent0_def root0_def
        checkChannelUnique_def Channel0_def Let_def)
  with e DoCreateChannel_rejects [OF a' b f', of agent0 "''alice.example''"] eq
  show ?thesis by simp
qed

section \<open>Funding a channel from the wallet\<close>

text \<open>
  The balance check of \<^verbatim>\<open>DoCreateChannel\<close> subtracts in 64 bits and looks at the
  sign. For a balance that is not negative the difference cannot wrap.
\<close>

lemma sub_sless_0:
  fixes b r :: "64 word"
  assumes "0 \<le>s b" and "b <s r"
  shows "b - r <s 0"
proof -
  have b: "0 \<le> sint b" and br: "sint b < sint r"
    using assms by (simp_all add: word_sle_eq word_sless_alt)
  have "sint r < 2 ^ 63" using sint_lt [of r] by simp
  with b br have "- (2 ^ 63) \<le> sint b - sint r" "sint b - sint r < 2 ^ 63" by simp_all
  then have "sint (b - r) = sint b - sint r"
    by (simp add: sint_word_ariths signed_take_bit_int_eq_self)
  with br show ?thesis by (simp add: word_sless_alt)
qed

text \<open>
  C5, as the check has it. A call of \<^verbatim>\<open>DoCreateChannel\<close> reaches the funding step
  when the address and the amount are set, federation resolves the guest to another
  account, no channel exists between the two, the wallet is funded, the five
  addresses are accepted and the escrow address names no channel yet; \<open>ch\<close> is the
  channel record built on the way. With a wallet balance that is not negative and is
  less than the reserve of \<open>ch\<close>, the call returns the insufficient-balance error,
  and the agent with its store (wallet, channels, next key index) is exactly as
  before. With a balance equal to the reserve the call is not rejected: the channel
  is stored, the wallet balance becomes 0, and the result is that of the
  \<open>CreateChannel\<close> command.
\<close>

theorem DoCreateChannel_insufficient_balance:
  assumes "guestFedAddr \<noteq> []" and "hostAmount \<noteq> 0"
    and "FindAccount env guestFedAddr = (guestAcctStr, starlightURL, None)"
    and "guestAcctStr \<noteq> PrimaryAcct (db g)"
    and "checkChannelUnique g (PrimaryAcct (db g)) guestAcctStr = None"
    and "isReadyFunded (db g)"
    and "SetAddress env guestAcctStr = None"
    and "SetAddress env (kp_Address (DeriveAccount env (seed g) (NextKeypathIndex (db g)))) = None"
    and "SetAddress env (kp_Address (DeriveAccount env (seed g) (NextKeypathIndex (db g) + 1))) = None"
    and "SetAddress env (kp_Address (DeriveAccount env (seed g) (NextKeypathIndex (db g) + 2))) = None"
    and "SetAddress env (PrimaryAcct (db g)) = None"
    and "ch_State (getChannel (db g)
           (kp_Address (DeriveAccount env (seed g) (NextKeypathIndex (db g))))) = Start"
    and "ch = (DoCreateChannel_channel env (db g) guestFedAddr hostAmount guestAcctStr starlightURL
                 (NextKeypathIndex (db g))
                 (DeriveAccount env (seed g) (NextKeypathIndex (db g)))
                 (DeriveAccount env (seed g) (NextKeypathIndex (db g) + 1))
                 (DeriveAccount env (seed g) (NextKeypathIndex (db g) + 2))
                 (Now env))\<lparr>ch_HostAcct := PrimaryAcct (db g)\<rparr>"
  shows "(0 \<le>s Balance (Wallet (db g))
            \<and> Balance (Wallet (db g)) <s SetupAndFundingReserveAmount env ch \<longrightarrow>
          DoCreateChannel env guestFedAddr hostAmount hostURL g =
            ((Some ch, Some (Wrap errInsufficientBalance
                               (Amount_String env (Balance (Wallet (db g)))))), g))
     \<and> (Balance (Wallet (db g)) = SetupAndFundingReserveAmount env ch \<longrightarrow>
          DoCreateChannel env guestFedAddr hostAmount hostURL g =
            (case doUpdateChannel env
                    ((putChannel ((db g)\<lparr>NextKeypathIndex := NextKeypathIndex (db g) + 3\<rparr>)
                        (ch_ID ch) ch)
                       \<lparr>Wallet := (Wallet (db g))\<lparr>Seqnum := Seqnum (Wallet (db g)) + 3,
                            Address := db_Username (agent_Config (db g)) @ ''*'' @ hostURL,
                            Balance := 0\<rparr>\<rparr>)
                    (ch_ID ch)
                    \<lparr>cmd_UserCommand = CreateChannel, cmd_Amount = hostAmount,
                     cmd_Recipient = guestFedAddr, cmd_Time = None\<rparr> of
               (None, root4) \<Rightarrow> ((Some ch, None), g\<lparr>db := root4\<rparr>)
             | (Some e, root4) \<Rightarrow> ((Some ch, Some e), g)))"
proof (intro conjI impI)
  assume "0 \<le>s Balance (Wallet (db g))
            \<and> Balance (Wallet (db g)) <s SetupAndFundingReserveAmount env ch"
  then have "Balance (Wallet (db g)) - SetupAndFundingReserveAmount env ch <s 0"
    by (simp add: sub_sless_0)
  with assms show "DoCreateChannel env guestFedAddr hostAmount hostURL g =
            ((Some ch, Some (Wrap errInsufficientBalance
                               (Amount_String env (Balance (Wallet (db g)))))), g)"
    by (simp add: DoCreateChannel_def db_Update_def DoCreateChannel_update_def Let_def
        nextChannelKeyIndex_def getChannel_def DoCreateChannel_channel_def passphrase_def)
next
  assume "Balance (Wallet (db g)) = SetupAndFundingReserveAmount env ch"
  with assms show "DoCreateChannel env guestFedAddr hostAmount hostURL g =
            (case doUpdateChannel env
                    ((putChannel ((db g)\<lparr>NextKeypathIndex := NextKeypathIndex (db g) + 3\<rparr>)
                        (ch_ID ch) ch)
                       \<lparr>Wallet := (Wallet (db g))\<lparr>Seqnum := Seqnum (Wallet (db g)) + 3,
                            Address := db_Username (agent_Config (db g)) @ ''*'' @ hostURL,
                            Balance := 0\<rparr>\<rparr>)
                    (ch_ID ch)
                    \<lparr>cmd_UserCommand = CreateChannel, cmd_Amount = hostAmount,
                     cmd_Recipient = guestFedAddr, cmd_Time = None\<rparr> of
               (None, root4) \<Rightarrow> ((Some ch, None), g\<lparr>db := root4\<rparr>)
             | (Some e, root4) \<Rightarrow> ((Some ch, Some e), g))"
    by (simp add: DoCreateChannel_def db_Update_def DoCreateChannel_update_def Let_def
        nextChannelKeyIndex_def getChannel_def DoCreateChannel_channel_def passphrase_def
        split: prod.splits option.splits)
qed

text \<open>
  With 100 stroops in the wallet, a channel of 1000 stroops, whose reserve is
  250001000 stroops, is refused, and the agent is as it was. With exactly 250001000
  stroops in the wallet the channel is created and the wallet is left with nothing.
\<close>

theorem DoCreateChannel_insufficient_balance_witness:
  "DoCreateChannel env0 ''bob*bob.example'' 1000 ''alice.example'' agent_poor
     = ((Some ((DoCreateChannel_channel env0 root0 ''bob*bob.example'' 1000 ''GBOB''
                  ''https://bob.example'' 1
                  \<lparr>kp_Address = ''GESCROW'', kp_Seed = ''S''\<rparr>
                  \<lparr>kp_Address = ''GHOSTRATCHET'', kp_Seed = ''S''\<rparr>
                  \<lparr>kp_Address = ''GGUESTRATCHET'', kp_Seed = ''S''\<rparr> 0)
               \<lparr>ch_HostAcct := ''GALICE''\<rparr>),
         Some (Wrap errInsufficientBalance ''amount'')), agent_poor)
   \<and> Balance (Wallet (db agent_poor)) = 100
   \<and> SetupAndFundingReserveAmount env0
        ((DoCreateChannel_channel env0 root0 ''bob*bob.example'' 1000 ''GBOB''
            ''https://bob.example'' 1
            \<lparr>kp_Address = ''GESCROW'', kp_Seed = ''S''\<rparr>
            \<lparr>kp_Address = ''GHOSTRATCHET'', kp_Seed = ''S''\<rparr>
            \<lparr>kp_Address = ''GGUESTRATCHET'', kp_Seed = ''S''\<rparr> 0)
         \<lparr>ch_HostAcct := ''GALICE''\<rparr>) = 250001000
   \<and> snd (fst (DoCreateChannel env0 ''bob*bob.example'' 1000 ''alice.example'' agent_exact)) = None
   \<and> Balance (Wallet (db agent_exact)) = 250001000
   \<and> Balance (Wallet (db (snd (DoCreateChannel env0 ''bob*bob.example'' 1000 ''alice.example''
        agent_exact)))) = 0
   \<and> map fst (Channels (db (snd (DoCreateChannel env0 ''bob*bob.example'' 1000 ''alice.example''
        agent_exact)))) = [''GESCROW'']"
proof -
  let ?ch = "\<lambda>g. (DoCreateChannel_channel env0 (db g) ''bob*bob.example'' 1000 ''GBOB''
                     ''https://bob.example'' (NextKeypathIndex (db g))
                     (DeriveAccount env0 (seed g) (NextKeypathIndex (db g)))
                     (DeriveAccount env0 (seed g) (NextKeypathIndex (db g) + 1))
                     (DeriveAccount env0 (seed g) (NextKeypathIndex (db g) + 2))
                     (Now env0))\<lparr>ch_HostAcct := PrimaryAcct (db g)\<rparr>"
  have poor: "(0 \<le>s Balance (Wallet (db agent_poor))
            \<and> Balance (Wallet (db agent_poor)) <s SetupAndFundingReserveAmount env0 (?ch agent_poor)
          \<longrightarrow>
          DoCreateChannel env0 ''bob*bob.example'' 1000 ''alice.example'' agent_poor =
            ((Some (?ch agent_poor),
              Some (Wrap errInsufficientBalance
                      (Amount_String env0 (Balance (Wallet (db agent_poor)))))), agent_poor))"
    by (rule DoCreateChannel_insufficient_balance
          [where guestAcctStr = "''GBOB''" and starlightURL = "''https://bob.example''",
           THEN conjunct1])
       (simp_all add: env0_def agent_poor_def agent0_def root0_def checkChannelUnique_def
          isReadyFunded_def getChannel_def Channel0_def word_sless_alt)
  have exact: "(Balance (Wallet (db agent_exact)) = SetupAndFundingReserveAmount env0 (?ch agent_exact)
          \<longrightarrow>
          DoCreateChannel env0 ''bob*bob.example'' 1000 ''alice.example'' agent_exact =
            (case doUpdateChannel env0
                    ((putChannel ((db agent_exact)\<lparr>NextKeypathIndex :=
                          NextKeypathIndex (db agent_exact) + 3\<rparr>)
                        (ch_ID (?ch agent_exact)) (?ch agent_exact))
                       \<lparr>Wallet := (Wallet (db agent_exact))\<lparr>
                            Seqnum := Seqnum (Wallet (db agent_exact)) + 3,
                            Address := db_Username (agent_Config (db agent_exact)) @ ''*''
                              @ ''alice.example'',
                            Balance := 0\<rparr>\<rparr>)
                    (ch_ID (?ch agent_exact))
                    \<lparr>cmd_UserCommand = CreateChannel, cmd_Amount = 1000,
                     cmd_Recipient = ''bob*bob.example'', cmd_Time = None\<rparr> of
               (None, root4) \<Rightarrow> ((Some (?ch agent_exact), None), agent_exact\<lparr>db := root4\<rparr>)
             | (Some e, root4) \<Rightarrow> ((Some (?ch agent_exact), Some e), agent_exact)))"
    by (rule DoCreateChannel_insufficient_balance
          [where guestAcctStr = "''GBOB''" and starlightURL = "''https://bob.example''",
           THEN conjunct2])
       (simp_all add: env0_def agent_exact_def agent0_def root0_def checkChannelUnique_def
          isReadyFunded_def getChannel_def Channel0_def word_sless_alt)
  from poor exact show ?thesis
    by (simp add: env0_def agent_poor_def agent_exact_def agent0_def root0_def
        DoCreateChannel_channel_def passphrase_def putChannel_def word_sless_alt word_sle_eq)
qed

text \<open>
  C5 has every balance below the reserve refused. The overdrawn wallet holds
  \<open>-9223372026854775907\<close> stroops, less than the reserve of 10250000000 stroops of
  a channel of 1000 lumens; the difference is below the 64-bit range and wraps to a
  positive number, so the call returns no error, stores the channel and leaves the
  wallet with 9223372036604775709 stroops.
\<close>

theorem DoCreateChannel_overdrawn_counterexample:
  "snd (fst (DoCreateChannel env0 ''bob*bob.example'' 10000000000 ''alice.example''
       agent_overdrawn)) = None
   \<and> sint (Balance (Wallet (db agent_overdrawn))) = - 9223372026854775907
   \<and> map_option (\<lambda>ch. sint (SetupAndFundingReserveAmount env0 ch))
        (fst (fst (DoCreateChannel env0 ''bob*bob.example'' 10000000000 ''alice.example''
           agent_overdrawn))) = Some 10250000000
   \<and> sint (Balance (Wallet (db (snd (DoCreateChannel env0 ''bob*bob.example'' 10000000000
        ''alice.example'' agent_overdrawn))))) = 9223372036604775709
   \<and> map fst (Channels (db (snd (DoCreateChannel env0 ''bob*bob.example'' 10000000000
        ''alice.example'' agent_overdrawn)))) = [''GESCROW'']"
  by (simp add: DoCreateChannel_def db_Update_def DoCreateChannel_update_def Let_def
      nextChannelKeyIndex_def getChannel_def DoCreateChannel_channel_def passphrase_def
      putChannel_def env0_def agent_overdrawn_def agent0_def root0_def config0_def
      checkChannelUnique_def isReadyFunded_def Channel0_def word_sless_alt)

section \<open>The wallet watcher\<close>

lemma watchWalletAcct_ops_append:
  "watchWalletAcct_ops acctID htx InputTx index (xs @ ys) root =
     (case watchWalletAcct_ops acctID htx InputTx index xs root of
        Inl e \<Rightarrow> Inl e
      | Inr root' \<Rightarrow> watchWalletAcct_ops acctID htx InputTx (index + length xs) ys root')"
  by (induction xs arbitrary: index root) (auto split: sum.splits)

text \<open>
  The update record of the create-account case, field by field: its type is the
  account type, its account is the account watched with the starting balance, and it
  carries the transaction and the index of the operation.
\<close>

lemma accountUpdate_fields:
  "accountUpdate acctID w InputTx index =
     \<lparr>upd_Type = AccountType, upd_Config = None,
      upd_Account = Some \<lparr>ua_ID = acctID, ua_Balance = Balance w\<rparr>,
      upd_InputTx = Some InputTx, upd_OpIndex = index, upd_InputCommand = None,
      upd_InputMessage = None, upd_InputLedgerTime = None, upd_PendingSequence = [],
      upd_Warning = []\<rparr>"
  by (simp add: accountUpdate_def Update0_def)

lemma watchWalletAcct_op_CreateAccount:
  "watchWalletAcct_op acctID htx InputTx index (CreateAccountOp acctID StartingBalance) root =
     Inr (root\<lparr>Wallet := \<lparr>Balance = StartingBalance, Seqnum = push_bit 32 (scast (Ledger htx)),
                            Cursor = PT htx, Address = []\<rparr>,
               Updates := Updates root @
                 [\<lparr>upd_Type = AccountType, upd_Config = None,
                   upd_Account = Some \<lparr>ua_ID = acctID, ua_Balance = StartingBalance\<rparr>,
                   upd_InputTx = Some InputTx, upd_OpIndex = index, upd_InputCommand = None,
                   upd_InputMessage = None, upd_InputLedgerTime = None,
                   upd_PendingSequence = [], upd_Warning = []\<rparr>]\<rparr>)"
  by (simp add: putUpdate_def Let_def accountUpdate_fields)

text \<open>
  C6. A transaction that decodes, has result code success and holds, after the
  operations \<open>pre\<close>, a create-account operation whose destination is the account
  watched: within the one update of that transaction, the wallet is set to the
  starting balance, the ledger number shifted left by 32 bits and the paging token,
  and one update record is appended to the log, of the account type, for the account
  watched, with the starting balance, the transaction and the index of the
  operation; the operations \<open>post\<close> that follow are applied to that store in the
  same update, which is stored when none of them panics.
\<close>

theorem watchWalletAcct_create_account:
  assumes "NewTx env htx = Inr InputTx"
    and "tx_ResultCode InputTx = TransactionResultCodeTxSuccess"
    and "tx_Operations InputTx = pre @ CreateAccountOp acctID StartingBalance # post"
    and "watchWalletAcct_ops acctID htx InputTx 0 pre
           (watchWalletAcct_sent acctID htx InputTx (db g)) = Inr root1"
  shows "watchWalletAcct_tx env acctID htx g =
     (case watchWalletAcct_ops acctID htx InputTx (Suc (length pre)) post
             (root1\<lparr>Wallet := \<lparr>Balance = StartingBalance,
                                 Seqnum = push_bit 32 (scast (Ledger htx)),
                                 Cursor = PT htx, Address = []\<rparr>,
                     Updates := Updates root1 @
                       [\<lparr>upd_Type = AccountType, upd_Config = None,
                         upd_Account = Some \<lparr>ua_ID = acctID, ua_Balance = StartingBalance\<rparr>,
                         upd_InputTx = Some InputTx, upd_OpIndex = length pre,
                         upd_InputCommand = None, upd_InputMessage = None,
                         upd_InputLedgerTime = None, upd_PendingSequence = [],
                         upd_Warning = []\<rparr>]\<rparr>) of
           Inl e \<Rightarrow> (Some e, g)
         | Inr root2 \<Rightarrow> (None, g\<lparr>db := root2\<rparr>))"
  using assms
  by (simp add: watchWalletAcct_tx_def db_Update_def watchWalletAcct_update_def
      watchWalletAcct_ops_append putUpdate_def accountUpdate_fields Let_def split: sum.splits)

text \<open>
  The funding transaction of a new account, in ledger 7 with paging token 42: the
  wallet holds 10000 lumens, its sequence number is \<open>7 * 2 ^ 32\<close>, its cursor is 42,
  and the log has one update, of the account type, for the account with 10000 lumens.
\<close>

theorem watchWalletAcct_create_account_witness:
  "watchWalletAcct_tx env_funding ''GALICE'' htx0 agent_new
   = (None, agent_new\<lparr>db := root_new\<lparr>
        Wallet := \<lparr>Balance = 100000000000, Seqnum = 30064771072, Cursor = ''42'', Address = []\<rparr>,
        Updates := [\<lparr>upd_Type = AccountType, upd_Config = None,
                     upd_Account = Some \<lparr>ua_ID = ''GALICE'', ua_Balance = 100000000000\<rparr>,
                     upd_InputTx = Some tx_funding, upd_OpIndex = 0, upd_InputCommand = None,
                     upd_InputMessage = None, upd_InputLedgerTime = None,
                     upd_PendingSequence = [], upd_Warning = []\<rparr>]\<rparr>\<rparr>)"
proof -
  have 1: "NewTx env_funding htx0 = Inr tx_funding"
    by (simp add: env_funding_def)
  have 2: "tx_ResultCode tx_funding = TransactionResultCodeTxSuccess"
    by (simp add: tx_funding_def)
  have 3: "tx_Operations tx_funding = [] @ CreateAccountOp ''GALICE'' 100000000000 # []"
    by (simp add: tx_funding_def)
  have 4: "watchWalletAcct_ops ''GALICE'' htx0 tx_funding 0 []
             (watchWalletAcct_sent ''GALICE'' htx0 tx_funding (db agent_new)) = Inr root_new"
    by (simp add: watchWalletAcct_sent_def tx_funding_def agent_new_def)
  show ?thesis
    using watchWalletAcct_create_account [OF 1 2 3 4]
    by (simp add: htx0_def agent_new_def root_new_def)
qed

lemma watchWalletAcct_op_ignored:
  "spec_ignored acctID op \<Longrightarrow> watchWalletAcct_op acctID htx InputTx index op root = Inr root"
  by (cases op) auto

lemma watchWalletAcct_ops_ignored:
  "\<forall>op \<in> set ops. spec_ignored acctID op \<Longrightarrow>
   watchWalletAcct_ops acctID htx InputTx index ops root = Inr root"
  by (induction ops arbitrary: index) (simp_all add: watchWalletAcct_op_ignored)

text \<open>
  C7. A transaction whose result code is not success leaves the agent as it is. In a
  successful transaction, an operation whose destination is not the account watched,
  a payment that is not native and an operation of any other type leave the store as
  it is, wallet and log included; so does any run of such operations.
\<close>

theorem watchWalletAcct_ignores:
  "(NewTx env htx = Inr InputTx \<and> tx_ResultCode InputTx \<noteq> TransactionResultCodeTxSuccess
      \<longrightarrow> watchWalletAcct_tx env acctID htx g = (None, g))
   \<and> (spec_ignored acctID op \<longrightarrow> watchWalletAcct_op acctID htx InputTx index op root = Inr root)
   \<and> ((\<forall>op \<in> set ops. spec_ignored acctID op) \<longrightarrow>
        watchWalletAcct_ops acctID htx InputTx index ops root = Inr root)"
  by (simp add: watchWalletAcct_tx_def watchWalletAcct_op_ignored watchWalletAcct_ops_ignored)

text \<open>
  A failed funding transaction, a payment to the account in another asset, and a
  create-account for someone else after an operation of another type.
\<close>

theorem watchWalletAcct_ignores_witness:
  "watchWalletAcct_tx env_failed ''GALICE'' htx0 agent_new = (None, agent_new)
   \<and> watchWalletAcct_op ''GALICE'' htx0 tx_failed 3 (PaymentOp ''GALICE'' (AssetTypeOther 1) 5) root0
       = Inr root0
   \<and> watchWalletAcct_ops ''GALICE'' htx0 tx_failed 3 [OtherOp 9, CreateAccountOp ''GBOB'' 1] root0
       = Inr root0"
  using watchWalletAcct_ignores [where env = env_failed and htx = htx0 and InputTx = tx_failed
      and acctID = "''GALICE''" and g = agent_new
      and op = "PaymentOp ''GALICE'' (AssetTypeOther 1) 5" and index = 3 and root = root0
      and ops = "[OtherOp 9, CreateAccountOp ''GBOB'' 1]"]
  by (simp add: env_failed_def tx_failed_def tx_funding_def)

section \<open>The first configuration\<close>

lemma ConfigInit_invalid_password_keeps_seed:
  assumes "ValidateTestnetURL env (HorizonURL c) = None"
    and "\<not> isReadyConfigured (db g)"
    and "Password c = [] \<or> 72 < length (Password c)"
  shows "seed (snd (ConfigInit env c g)) = Some (randRead env)"
  using assms
  by (auto simp add: ConfigInit_def db_Update_def ConfigInit_update_def Let_def)

text \<open>
  C8, as \<^verbatim>\<open>ConfigInit\<close> has it. When the Horizon URL passes validation and the agent
  is not configured yet, an empty password and a password of more than 72 characters
  are refused with an invalid-password error, and nothing is written: the store, the
  ledger client's URL and the goroutines launched are as before.
\<close>

theorem ConfigInit_invalid_password:
  assumes "ValidateTestnetURL env (HorizonURL c) = None"
    and "\<not> isReadyConfigured (db g)"
    and "Password c = [] \<or> 72 < length (Password c)"
  shows "(\<exists>msg. fst (ConfigInit env c g) = Some (Wrap errInvalidPassword msg))
     \<and> db (snd (ConfigInit env c g)) = db g
     \<and> wclient_URL (snd (ConfigInit env c g)) = wclient_URL g
     \<and> launched (snd (ConfigInit env c g)) = launched g"
  using assms
  by (auto simp add: ConfigInit_def db_Update_def ConfigInit_update_def Let_def)

text \<open>A new agent, asked to configure itself as \<open>alice\<close> with no password.\<close>

theorem ConfigInit_invalid_password_witness:
  "fst (ConfigInit env0 (Config0\<lparr>Username := ''alice'',
          HorizonURL := ''https://horizon-testnet.stellar.org''\<rparr>) agent_new)
     = Some (Wrap errInvalidPassword ''empty password'')
   \<and> db (snd (ConfigInit env0 (Config0\<lparr>Username := ''alice'',
          HorizonURL := ''https://horizon-testnet.stellar.org''\<rparr>) agent_new)) = root_new"
proof -
  have 1: "ValidateTestnetURL env0 (HorizonURL (Config0\<lparr>Username := ''alice'',
             HorizonURL := ''https://horizon-testnet.stellar.org''\<rparr>)) = None"
    by (simp add: env0_def)
  have 2: "\<not> isReadyConfigured (db agent_new)"
    by (simp add: isReadyConfigured_def agent_new_def root_new_def)
  have 3: "Password (Config0\<lparr>Username := ''alice'',
             HorizonURL := ''https://horizon-testnet.stellar.org''\<rparr>) = []
           \<or> 72 < length (Password (Config0\<lparr>Username := ''alice'',
             HorizonURL := ''https://horizon-testnet.stellar.org''\<rparr>))"
    by (simp add: Config0_def)
  from ConfigInit_invalid_password [OF 1 2 3]
  have "db (snd (ConfigInit env0 (Config0\<lparr>Username := ''alice'',
          HorizonURL := ''https://horizon-testnet.stellar.org''\<rparr>) agent_new)) = db agent_new"
    by simp
  then show ?thesis
    by (simp add: ConfigInit_def db_Update_def ConfigInit_update_def Let_def Config0_def env0_def
        agent_new_def root_new_def isReadyConfigured_def)
qed

text \<open>
  C8 has every empty password answered with an invalid-password error and no seed
  kept. An agent that is configured already answers that it is configured. A new
  agent answers with the invalid-password error, and keeps the seed that it
  generated before it looked at the password.
\<close>

theorem ConfigInit_password_error_counterexample:
  "fst (ConfigInit env0 (Config0\<lparr>Username := ''alice'',
          HorizonURL := ''https://horizon-testnet.stellar.org''\<rparr>) agent0)
     = Some errAlreadyConfigured
   \<and> Password (Config0\<lparr>Username := ''alice'',
          HorizonURL := ''https://horizon-testnet.stellar.org''\<rparr>) = []
   \<and> ConfigInit env0 (Config0\<lparr>Username := ''alice'',
          HorizonURL := ''https://horizon-testnet.stellar.org''\<rparr>) agent_new
     = (Some (Wrap errInvalidPassword ''empty password''),
        agent_new\<lparr>seed := Some (replicate 32 7)\<rparr>)
   \<and> seed agent_new = None"
  by (simp add: ConfigInit_def db_Update_def ConfigInit_update_def Let_def Config0_def env0_def
      agent0_def root0_def config0_def agent_new_def root_new_def isReadyConfigured_def)

section \<open>Key indices\<close>

lemma DoCreateChannel_update_success:
  assumes "DoCreateChannel_update env guestFedAddr hostAmount hostURL hostAcctStr guestAcctStr
             starlightURL g = (None, chopt, g')"
    and "ch = (DoCreateChannel_channel env (db g) guestFedAddr hostAmount guestAcctStr starlightURL
                 (NextKeypathIndex (db g))
                 (DeriveAccount env (seed g) (NextKeypathIndex (db g)))
                 (DeriveAccount env (seed g) (NextKeypathIndex (db g) + 1))
                 (DeriveAccount env (seed g) (NextKeypathIndex (db g) + 2))
                 (Now env))\<lparr>ch_HostAcct := hostAcctStr\<rparr>"
    and "root3 = (putChannel ((db g)\<lparr>NextKeypathIndex := NextKeypathIndex (db g) + 3\<rparr>) (ch_ID ch) ch)
                   \<lparr>Wallet := (Wallet (db g))\<lparr>Seqnum := Seqnum (Wallet (db g)) + 3,
                        Address := db_Username (agent_Config (db g)) @ ''*'' @ hostURL,
                        Balance := Balance (Wallet (db g)) - SetupAndFundingReserveAmount env ch\<rparr>\<rparr>"
  shows "chopt = Some ch
       \<and> doUpdateChannel env root3 (ch_ID ch)
            \<lparr>cmd_UserCommand = CreateChannel, cmd_Amount = hostAmount,
             cmd_Recipient = guestFedAddr, cmd_Time = None\<rparr> = (None, db g')"
  using assms
  by (auto simp add: DoCreateChannel_update_def Let_def nextChannelKeyIndex_def
        DoCreateChannel_channel_def passphrase_def
      split: if_splits option.splits prod.splits)

lemma key_index_no_wrap:
  fixes i :: "32 word"
  assumes "i \<le> 0xFFFFFFFC"
  shows "i \<le> i + 3 \<and> unat (i + 3) = unat i + 3"
proof -
  have "unat i \<le> 4294967292" using assms by (simp add: word_le_nat_alt)
  then have "unat i + unat (3 :: 32 word) < 2 ^ LENGTH(32)" by simp
  then have "unat (i + 3) = unat i + unat (3 :: 32 word)" by (simp only: unat_add_lem)
  then show ?thesis by (simp add: word_le_nat_alt)
qed

text \<open>
  C9, as the counter has it. A call of \<^verbatim>\<open>DoCreateChannel\<close> that returns no error
  has read the stored key index \<open>i\<close>, derived the escrow, host-ratchet and
  guest-ratchet accounts of the channel at \<open>i\<close>, \<open>i + 1\<close> and \<open>i + 2\<close>, and left
  \<open>i + 3\<close> in the store, the \<open>CreateChannel\<close> command, which runs last, leaving the
  index alone. The index is a \<^verbatim>\<open>uint32\<close> and the sums are taken in 32 bits: up to
  \<open>i = 2 ^ 32 - 4\<close> they do not wrap, the counter does not decrease and it grows by
  exactly 3.
\<close>

theorem DoCreateChannel_key_indices:
  assumes "DoCreateChannel env guestFedAddr hostAmount hostURL g = ((chopt, None), g')"
    and "\<forall>root chanID c.
           NextKeypathIndex (snd (doUpdateChannel env root chanID c)) = NextKeypathIndex root"
  shows "\<exists>ch. chopt = Some ch
       \<and> ch_KeyIndex ch = NextKeypathIndex (db g)
       \<and> ch_EscrowAcct ch = kp_Address (DeriveAccount env (seed g) (NextKeypathIndex (db g)))
       \<and> ch_HostRatchetAcct ch =
           kp_Address (DeriveAccount env (seed g) (NextKeypathIndex (db g) + 1))
       \<and> ch_GuestRatchetAcct ch =
           kp_Address (DeriveAccount env (seed g) (NextKeypathIndex (db g) + 2))
       \<and> NextKeypathIndex (db g') = NextKeypathIndex (db g) + 3
       \<and> (NextKeypathIndex (db g) \<le> 0xFFFFFFFC \<longrightarrow>
            NextKeypathIndex (db g) \<le> NextKeypathIndex (db g')
          \<and> unat (NextKeypathIndex (db g')) = unat (NextKeypathIndex (db g)) + 3)"
proof -
  from assms(1) obtain hostAcctStr guestAcctStr starlightURL where
    upd: "DoCreateChannel_update env guestFedAddr hostAmount hostURL hostAcctStr guestAcctStr
            starlightURL g = (None, chopt, g')"
    by (auto simp add: DoCreateChannel_def db_Update_def Let_def
        split: if_splits option.splits prod.splits)
  define ch where "ch = (DoCreateChannel_channel env (db g) guestFedAddr hostAmount guestAcctStr
                 starlightURL (NextKeypathIndex (db g))
                 (DeriveAccount env (seed g) (NextKeypathIndex (db g)))
                 (DeriveAccount env (seed g) (NextKeypathIndex (db g) + 1))
                 (DeriveAccount env (seed g) (NextKeypathIndex (db g) + 2))
                 (Now env))\<lparr>ch_HostAcct := hostAcctStr\<rparr>"
  define root3 where "root3 =
      (putChannel ((db g)\<lparr>NextKeypathIndex := NextKeypathIndex (db g) + 3\<rparr>) (ch_ID ch) ch)
         \<lparr>Wallet := (Wallet (db g))\<lparr>Seqnum := Seqnum (Wallet (db g)) + 3,
              Address := db_Username (agent_Config (db g)) @ ''*'' @ hostURL,
              Balance := Balance (Wallet (db g)) - SetupAndFundingReserveAmount env ch\<rparr>\<rparr>"
  from DoCreateChannel_update_success [OF upd ch_def root3_def]
  have ch: "chopt = Some ch"
    and upd4: "doUpdateChannel env root3 (ch_ID ch)
              \<lparr>cmd_UserCommand = CreateChannel, cmd_Amount = hostAmount,
               cmd_Recipient = guestFedAddr, cmd_Time = None\<rparr> = (None, db g')"
    by simp_all
  have r3: "NextKeypathIndex root3 = NextKeypathIndex (db g) + 3"
    by (simp add: root3_def putChannel_def)
  from assms(2) upd4 have "NextKeypathIndex (db g') = NextKeypathIndex root3"
    by (metis snd_conv)
  with r3 have idx: "NextKeypathIndex (db g') = NextKeypathIndex (db g) + 3" by simp
  show ?thesis
    using ch idx key_index_no_wrap [of "NextKeypathIndex (db g)"]
    by (simp add: ch_def DoCreateChannel_channel_def)
qed

text \<open>
  A channel of 100 lumens, opened by the agent whose next key index is 1: the channel
  has key index 1 and the accounts derived at 1, 2 and 3, and the next key index is 4.
\<close>

theorem DoCreateChannel_key_indices_witness:
  "snd (fst (DoCreateChannel env0 ''bob*bob.example'' 1000000000 ''alice.example'' agent0)) = None
   \<and> NextKeypathIndex (db agent0) = 1
   \<and> NextKeypathIndex (db (snd (DoCreateChannel env0 ''bob*bob.example'' 1000000000
        ''alice.example'' agent0))) = 4
   \<and> map_option ch_KeyIndex (fst (fst (DoCreateChannel env0 ''bob*bob.example'' 1000000000
        ''alice.example'' agent0))) = Some 1
   \<and> map_option ch_EscrowAcct (fst (fst (DoCreateChannel env0 ''bob*bob.example'' 1000000000
        ''alice.example'' agent0))) = Some ''GESCROW''
   \<and> map_option ch_HostRatchetAcct (fst (fst (DoCreateChannel env0 ''bob*bob.example'' 1000000000
        ''alice.example'' agent0))) = Some ''GHOSTRATCHET''
   \<and> map_option ch_GuestRatchetAcct (fst (fst (DoCreateChannel env0 ''bob*bob.example'' 1000000000
        ''alice.example'' agent0))) = Some ''GGUESTRATCHET''"
proof -
  let ?X = "DoCreateChannel env0 ''bob*bob.example'' 1000000000 ''alice.example'' agent0"
  have ok: "snd (fst ?X) = None"
    by (simp add: DoCreateChannel_def db_Update_def DoCreateChannel_update_def Let_def
        nextChannelKeyIndex_def getChannel_def DoCreateChannel_channel_def passphrase_def
        putChannel_def env0_def agent0_def root0_def config0_def checkChannelUnique_def
        isReadyFunded_def Channel0_def word_sless_alt)
  then have X: "?X = ((fst (fst ?X), None), snd ?X)"
    by (metis prod.collapse)
  have frame: "\<forall>root chanID c.
      NextKeypathIndex (snd (doUpdateChannel env0 root chanID c)) = NextKeypathIndex root"
    by (simp add: env0_def)
  from DoCreateChannel_key_indices [OF X frame] obtain ch where
    "fst (fst ?X) = Some ch"
    "ch_KeyIndex ch = NextKeypathIndex (db agent0)"
    "ch_EscrowAcct ch = kp_Address (DeriveAccount env0 (seed agent0) (NextKeypathIndex (db agent0)))"
    "ch_HostRatchetAcct ch =
       kp_Address (DeriveAccount env0 (seed agent0) (NextKeypathIndex (db agent0) + 1))"
    "ch_GuestRatchetAcct ch =
       kp_Address (DeriveAccount env0 (seed agent0) (NextKeypathIndex (db agent0) + 2))"
    "NextKeypathIndex (db (snd ?X)) = NextKeypathIndex (db agent0) + 3"
    by blast
  with ok show ?thesis
    by (simp add: env0_def agent0_def root0_def)
qed

text \<open>
  C9 has the counter never decrease. From the key index \<open>2 ^ 32 - 2\<close> a channel is
  created with its guest-ratchet account derived at index 0, and the next key index
  is 1.
\<close>

theorem DoCreateChannel_key_index_wraps_counterexample:
  "snd (fst (DoCreateChannel env0 ''bob*bob.example'' 1000000000 ''alice.example''
       agent_lastkey)) = None
   \<and> unat (NextKeypathIndex (db agent_lastkey)) = 4294967294
   \<and> unat (NextKeypathIndex (db (snd (DoCreateChannel env0 ''bob*bob.example'' 1000000000
        ''alice.example'' agent_lastkey)))) = 1
   \<and> map_option ch_KeyIndex (fst (fst (DoCreateChannel env0 ''bob*bob.example'' 1000000000
        ''alice.example'' agent_lastkey))) = Some 0xFFFFFFFE
   \<and> map_option ch_GuestRatchetAcct (fst (fst (DoCreateChannel env0 ''bob*bob.example''
        1000000000 ''alice.example'' agent_lastkey)))
       = Some (kp_Address (DeriveAccount env0 (seed agent_lastkey) 0))"
  by (simp add: DoCreateChannel_def db_Update_def DoCreateChannel_update_def Let_def
      nextChannelKeyIndex_def getChannel_def DoCreateChannel_channel_def passphrase_def
      putChannel_def env0_def agent_lastkey_def agent0_def root0_def config0_def
      checkChannelUnique_def isReadyFunded_def Channel0_def word_sless_alt)

section \<open>Paying from the wallet\<close>

text \<open>
  What \<^verbatim>\<open>DoWalletPay\<close> does, in the 64-bit arithmetic of the source: it refuses
  unless the balance is greater than the sum of amount and fee, and a call that
  returns no error has taken that sum from the balance, added 1 to the sequence
  number and queued one task, the signed payment built with the new sequence number.
\<close>

lemma DoWalletPay_machine:
  assumes "dest \<noteq> []" and "amount \<noteq> 0"
  shows "(Balance (Wallet (db g)) \<le>s amount + db_HostFeerate (agent_Config (db g)) \<longrightarrow>
            DoWalletPay env dest amount g = (Some (errors_New ''insufficient funds''), g))
     \<and> (\<forall>g'. DoWalletPay env dest amount g = (None, g') \<longrightarrow>
            amount + db_HostFeerate (agent_Config (db g)) <s Balance (Wallet (db g))
          \<and> Balance (Wallet (db g')) =
              Balance (Wallet (db g)) - (amount + db_HostFeerate (agent_Config (db g)))
          \<and> Seqnum (Wallet (db g')) = Seqnum (Wallet (db g)) + 1
          \<and> (\<exists>btx e.
                b_Transaction env (passphrase (db g)) (PrimaryAcct (db g))
                  (Seqnum (Wallet (db g)) + 1) dest (HorizonString env amount) = Inr btx
              \<and> Sign env btx (kp_Seed (DeriveAccountPrimary env (seed g))) = Inr e
              \<and> Tasks (db g') = Tasks (db g) @ [TbTx (walletBucket env) e]))"
  using assms
  by (auto simp add: DoWalletPay_def db_Update_def DoWalletPay_update_def Let_def putUpdate_def
      addTxTask_def tb_AddTx_def passphrase_def
      split: sum.splits option.splits prod.splits if_splits)

text \<open>The 64-bit comparison is the comparison of the integers when the sum does not wrap.\<close>

lemma sle_sum_no_wrap:
  fixes a f b :: "64 word"
  assumes "- (2 ^ 63) \<le> sint a + sint f" and "sint a + sint f < 2 ^ 63"
  shows "b \<le>s a + f \<longleftrightarrow> sint b \<le> sint a + sint f"
  using assms by (simp add: word_sle_eq sint_word_ariths signed_take_bit_int_eq_self)

text \<open>
  C10. A payment should fail with the insufficient-funds error unless the balance is
  greater than the amount plus the host fee. With 1000 lumens in the wallet, a fee of
  100 stroops and an amount of \<open>2 ^ 63 - 1\<close> stroops, the sum of amount and fee wraps
  to a negative number: the call returns no error, queues the payment, and leaves a
  balance of \<open>-9223372026854775907\<close> stroops in the wallet.
\<close>

theorem DoWalletPay_accepts_overflowing_amount:
  "fst (DoWalletPay env0 ''GBOB'' 0x7FFFFFFFFFFFFFFF agent0) = None
   \<and> sint (Balance (Wallet (db agent0))) = 10000000000
   \<and> sint (db_HostFeerate (agent_Config (db agent0))) = 100
   \<and> sint (0x7FFFFFFFFFFFFFFF :: 64 word) = 9223372036854775807
   \<and> sint (0x7FFFFFFFFFFFFFFF + db_HostFeerate (agent_Config (db agent0))) = - 9223372036854775709
   \<and> sint (Balance (Wallet (db (snd (DoWalletPay env0 ''GBOB'' 0x7FFFFFFFFFFFFFFF agent0)))))
       = - 9223372026854775907
   \<and> Tasks (db (snd (DoWalletPay env0 ''GBOB'' 0x7FFFFFFFFFFFFFFF agent0)))
       = [TbTx ''wallet'' ''env'']"
  by (simp add: DoWalletPay_def db_Update_def DoWalletPay_update_def Let_def putUpdate_def
      addTxTask_def tb_AddTx_def passphrase_def env0_def agent0_def root0_def config0_def)

end
